theory Spec2Isabelle
  imports Main "HOL-Library.Sublist"
begin

section \<open>Python string primitives used by the exporter\<close>

text \<open>
  \<open>sep.join(xs)\<close>: the pieces of \<open>xs\<close> with \<open>sep\<close> between neighbours, nothing
  before the first or after the last.
\<close>

fun py_join :: "string \<Rightarrow> string list \<Rightarrow> string" where
  "py_join sep [] = []"
| "py_join sep [x] = x"
| "py_join sep (x # y # ys) = x @ sep @ py_join sep (y # ys)"

text \<open>
  \<open>s.replace(old, new)\<close>: the occurrences of \<open>old\<close> are found from the left and do not
  overlap; each is replaced by \<open>new\<close>. For the empty \<open>old\<close> Python puts \<open>new\<close> before
  every character and at the end.
\<close>

fun py_replace :: "string \<Rightarrow> string \<Rightarrow> string \<Rightarrow> string" where
  "py_replace [] new s = new @ concat (map (\<lambda>c. c # new) s)"
| "py_replace (a # old) new [] = []"
| "py_replace (a # old) new (c # cs) =
     (if prefix (a # old) (c # cs) then new @ py_replace (a # old) new (drop (length old) cs)
      else c # py_replace (a # old) new cs)"

text \<open>The single quote, the line feed and runs of blanks of the SQL templates.\<close>

definition sq :: string where
  "sq = [CHR 0x27]"

definition nl :: string where
  "nl = [CHR 0x0A]"

definition sp :: "nat \<Rightarrow> string" where
  "sp n = replicate n (CHR '' '')"

text \<open>\<open>x.replace("'", "''")\<close>, the escaping the exporter applies to SQL literals.\<close>

definition sq_escape :: "string \<Rightarrow> string" where
  "sq_escape x = py_replace sq (sq @ sq) x"

text \<open>
  An f-string renders an absent configuration value (\<open>config.get\<close> returned \<open>None\<close>)
  as the text \<open>None\<close>.
\<close>

fun py_str :: "string option \<Rightarrow> string" where
  "py_str None = ''None''"
| "py_str (Some x) = x"

text \<open>
  Exceptions. \<open>ValueError\<close> is raised by the exporter itself, \<open>EngineError\<close> stands for
  whatever the DuckDB connection or a catalog extractor raises, \<open>OSError\<close> for a failing
  local file operation. \<open>str(e)\<close> is the message.
\<close>

datatype py_error = ValueError string | EngineError string | OSError string

fun str_of_error :: "py_error \<Rightarrow> string" where
  "str_of_error (ValueError m) = m"
| "str_of_error (EngineError m) = m"
| "str_of_error (OSError m) = m"

section \<open>Table metadata as delivered by the catalog extractors\<close>

text \<open>
  The extractors return dictionaries; the keys the exporter reads become record fields.
  \<open>primary_key\<close> is \<open>None\<close> or a dictionary with the keys \<open>name\<close> and
  \<open>columns\<close> (a non-empty dictionary, hence truthy). \<open>index.get('type')\<close> may be
  absent, \<open>index.get('is_unique')\<close> is read for its truth value.
\<close>

record key_info =
  k_name :: string
  k_columns :: "string list"

record index_info =
  i_name :: string
  i_type :: "string option"
  is_unique :: bool
  i_columns :: "string list"

record column_info =
  c_name :: string

record table_info =
  schema :: string
  name :: string
  full_name :: string
  ddl :: string
  columns :: "column_info list"
  primary_key :: "key_info option"
  indexes :: "index_info list"

section \<open>Sort-order selection (\<open>DuckDBExporter.get_table_sort_order\<close>)\<close>

text \<open>\<open>f'"{col}"'\<close>: the column name between two double quotes, nothing escaped.\<close>

definition quoted :: "string \<Rightarrow> string" where
  "quoted col = CHR 0x22 # col @ [CHR 0x22]"

text \<open>\<open>', '.join([f'"{col}"' for col in cols])\<close>.\<close>

definition sort_clause :: "string list \<Rightarrow> string" where
  "sort_clause cols = py_join '', '' (map quoted cols)"

text \<open>
  The first \<open>for\<close> loop: return at the first index whose type is \<open>CLUSTERED\<close>;
  \<open>None\<close> when the loop runs to its end.
\<close>

fun clustered_loop :: "index_info list \<Rightarrow> string option" where
  "clustered_loop [] = None"
| "clustered_loop (index # rest) =
     (if i_type index = Some ''CLUSTERED'' then Some (sort_clause (i_columns index))
      else clustered_loop rest)"

text \<open>The second \<open>for\<close> loop: return at the first index whose \<open>is_unique\<close> is truthy.\<close>

fun unique_loop :: "index_info list \<Rightarrow> string option" where
  "unique_loop [] = None"
| "unique_loop (index # rest) =
     (if is_unique index then Some (sort_clause (i_columns index))
      else unique_loop rest)"

definition get_table_sort_order :: "table_info \<Rightarrow> string" where
  "get_table_sort_order table_info =
     (case primary_key table_info of
        Some pk \<Rightarrow> sort_clause (k_columns pk)
      | None \<Rightarrow>
          (case clustered_loop (indexes table_info) of
             Some r \<Rightarrow> r
           | None \<Rightarrow>
               (case unique_loop (indexes table_info) of
                  Some r \<Rightarrow> r
                | None \<Rightarrow>
                    (case columns table_info of
                       first_col # _ \<Rightarrow> quoted (c_name first_col)
                     | [] \<Rightarrow> []))))"

section \<open>Destination path of a table (\<open>export_table_data\<close>, \<open>table_s3_path\<close>)\<close>

text \<open>\<open>f"{self.s3_bucket_path}/{schema}/{table}/{table}.parquet"\<close>.\<close>

definition table_s3_path :: "string \<Rightarrow> string \<Rightarrow> string \<Rightarrow> string" where
  "table_s3_path s3_bucket_path sch tbl =
     s3_bucket_path @ ''/'' @ sch @ ''/'' @ tbl @ ''/'' @ tbl @ ''.parquet''"

section \<open>Exporter configuration (\<open>DuckDBExporter.__init__\<close>)\<close>

text \<open>
  The fields of the exporter object that the export reads. \<open>port\<close> is the text an
  f-string renders for the configured port; \<open>username\<close> and \<open>password\<close> come from
  \<open>config.get\<close> and may be absent; \<open>s3_bucket_path\<close> is the configured path after
  \<open>rstrip('/')\<close>.
\<close>

record config =
  db_type :: string
  server :: string
  database :: string
  port :: string
  auth_type :: string
  username :: "string option"
  password :: "string option"
  s3_bucket_path :: string

section \<open>Scan function and export statement (\<open>export_table_data\<close>, lines 326 to 393)\<close>

text \<open>The ODBC connection string for nanodbc, for the two ODBC engines.\<close>

definition odbc_conn :: "config \<Rightarrow> string" where
  "odbc_conn cfg =
     (if db_type cfg = ''sqlserver'' then
        (if auth_type cfg = ''windows'' then
           ''Driver={ODBC Driver 17 for SQL Server};Server='' @ server cfg @ '','' @ port cfg
           @ '';Database='' @ database cfg @ '';Trusted_Connection=yes;''
         else
           ''Driver={ODBC Driver 17 for SQL Server};Server='' @ server cfg @ '','' @ port cfg
           @ '';Database='' @ database cfg @ '';Uid='' @ py_str (username cfg)
           @ '';Pwd='' @ py_str (password cfg) @ '';'')
      else
        ''Driver={Oracle in OraClient19Home1};DBQ='' @ server cfg @ '':'' @ port cfg @ ''/''
        @ database cfg @ '';Uid='' @ py_str (username cfg) @ '';Pwd='' @ py_str (password cfg)
        @ '';'')"

text \<open>
  The query sent through ODBC: brackets around schema and table for SQL Server, double
  quotes otherwise, and the ordering appended when \<open>sort_order\<close> is not empty.
\<close>

definition table_query :: "config \<Rightarrow> table_info \<Rightarrow> string \<Rightarrow> string" where
  "table_query cfg table_info sort_order =
     (if db_type cfg = ''sqlserver''
      then ''SELECT * FROM ['' @ schema table_info @ ''].['' @ name table_info @ '']''
      else ''SELECT * FROM '' @ quoted (schema table_info) @ ''.'' @ quoted (name table_info))
     @ (if sort_order \<noteq> [] then '' ORDER BY '' @ sort_order else [])"

definition pg_conn :: "config \<Rightarrow> string" where
  "pg_conn cfg =
     ''host='' @ server cfg @ '' port='' @ port cfg @ '' dbname='' @ database cfg
     @ '' user='' @ py_str (username cfg) @ '' password='' @ py_str (password cfg)"

text \<open>
  The scan function text, or the \<open>ValueError\<close> of the final \<open>else\<close> branch for an
  engine that is none of the three.
\<close>

definition scan_function :: "config \<Rightarrow> table_info \<Rightarrow> string \<Rightarrow> py_error + string" where
  "scan_function cfg table_info sort_order =
     (if db_type cfg = ''sqlserver'' \<or> db_type cfg = ''oracle'' then
        Inr (nl @ sp 20 @ ''odbc_query('' @ nl
             @ sp 24 @ ''connection='' @ sq @ sq_escape (odbc_conn cfg) @ sq @ '','' @ nl
             @ sp 24 @ ''query='' @ sq @ sq_escape (table_query cfg table_info sort_order) @ sq @ nl
             @ sp 20 @ '')'' @ nl @ sp 16)
      else if db_type cfg = ''postgresql'' then
        Inr (nl @ sp 20 @ ''postgres_scan('' @ nl
             @ sp 24 @ sq @ sq_escape (pg_conn cfg) @ sq @ '','' @ nl
             @ sp 24 @ sq @ sq_escape (schema table_info) @ sq @ '','' @ nl
             @ sp 24 @ sq @ sq_escape (name table_info) @ sq @ nl
             @ sp 20 @ '')'' @ nl @ sp 16)
      else Inl (ValueError (''Scanner not available for '' @ db_type cfg)))"

text \<open>
  The \<open>COPY\<close> statement; for PostgreSQL the ordering is added here. The destination path
  is interpolated as it is.
\<close>

definition export_query :: "config \<Rightarrow> string \<Rightarrow> string \<Rightarrow> string \<Rightarrow> string" where
  "export_query cfg scan sort_order path =
     (if db_type cfg = ''postgresql'' \<and> sort_order \<noteq> [] then
        nl @ sp 20 @ ''COPY ('' @ nl
        @ sp 24 @ ''SELECT * FROM '' @ scan @ nl
        @ sp 24 @ ''ORDER BY '' @ sort_order @ nl
        @ sp 20 @ '') TO '' @ sq @ path @ sq @ nl
        @ sp 20 @ ''(FORMAT '' @ sq @ ''parquet'' @ sq @ '', COMPRESSION '' @ sq @ ''ZSTD'' @ sq
        @ '', ROW_GROUP_SIZE 100000);'' @ nl @ sp 16
      else
        nl @ sp 20 @ ''COPY ('' @ nl
        @ sp 24 @ ''SELECT * FROM '' @ scan @ nl
        @ sp 20 @ '') TO '' @ sq @ path @ sq @ nl
        @ sp 20 @ ''(FORMAT '' @ sq @ ''parquet'' @ sq @ '', COMPRESSION '' @ sq @ ''ZSTD'' @ sq
        @ '', ROW_GROUP_SIZE 100000);'' @ nl @ sp 16)"

section \<open>Statement texts of the ledger and of the blob write\<close>

text \<open>
  \<open>_log_export_start\<close>: the \<open>INSERT\<close>; the identifier and the timestamp are interpolated
  as they are, the four values taken from the table are escaped.
\<close>

definition log_start_sql :: "string \<Rightarrow> string \<Rightarrow> table_info \<Rightarrow> string \<Rightarrow> string" where
  "log_start_sql log_id started_at table_info s3_path =
     nl @ sp 12
     @ ''INSERT INTO export_logs (id, schema, table_name, full_name, s3_path, status, message, started_at)''
     @ nl @ sp 12 @ ''VALUES ('' @ sq @ log_id @ sq @ '', ''
     @ sq @ sq_escape (schema table_info) @ sq @ '', ''
     @ sq @ sq_escape (name table_info) @ sq @ '', ''
     @ sq @ sq_escape (full_name table_info) @ sq @ '', ''
     @ sq @ sq_escape s3_path @ sq @ '', ''
     @ sq @ ''in_progress'' @ sq @ '', '' @ sq @ sq @ '', '' @ sq @ started_at @ sq @ '');''
     @ nl @ sp 8"

text \<open>\<open>_log_export_end\<close>: the \<open>UPDATE\<close>; only the message is escaped.\<close>

definition log_end_sql :: "string \<Rightarrow> string \<Rightarrow> string \<Rightarrow> string \<Rightarrow> string" where
  "log_end_sql log_id status message finished_at =
     nl @ sp 12 @ ''UPDATE export_logs'' @ nl
     @ sp 12 @ ''SET status = '' @ sq @ status @ sq @ '', message = '' @ sq @ sq_escape message @ sq
     @ '', finished_at = '' @ sq @ finished_at @ sq @ nl
     @ sp 12 @ ''WHERE id = '' @ sq @ log_id @ sq @ '';'' @ nl @ sp 8"

text \<open>\<open>_save_to_s3\<close>: the \<open>COPY\<close> of one literal; the content is escaped, the path is not.\<close>

definition save_query :: "string \<Rightarrow> string \<Rightarrow> string" where
  "save_query s3_path content =
     nl @ sp 8 @ ''COPY (SELECT '' @ sq @ sq_escape content @ sq @ '' AS content)'' @ nl
     @ sp 8 @ ''TO '' @ sq @ s3_path @ sq @ nl
     @ sp 8 @ ''(FORMAT '' @ sq @ ''csv'' @ sq @ '', HEADER false);'' @ nl @ sp 8"

section \<open>Statement text of the S3 secret (\<open>initialize_duckdb\<close>, lines 66 to 101)\<close>

text \<open>
  The attributes \<open>initialize_duckdb\<close> reads for the secret, as \<open>__init__\<close> leaves them:
  each is \<open>config.get\<close> of its key, so \<open>None\<close> when the key is absent, except the region,
  whose default is \<open>us-east-1\<close> and which is \<open>None\<close> only when the configuration holds a
  null there. An attribute is truthy when it is not \<open>None\<close> and not empty. With an AWS
  profile the secret uses the credential chain; otherwise, with an access key and a
  secret key, it names them, and a session token when there is one; otherwise no secret
  is created. Every attribute is interpolated as it is. Whether the statement succeeds is part of \<open>init_error\<close> below.
\<close>

record s3_settings =
  aws_profile :: "string option"
  s3_access_key :: "string option"
  s3_secret_key :: "string option"
  s3_session_token :: "string option"
  s3_region :: "string option"

fun truthy :: "string option \<Rightarrow> bool" where
  "truthy None = False"
| "truthy (Some x) = (x \<noteq> [])"

definition create_secret_sql :: "s3_settings \<Rightarrow> string option" where
  "create_secret_sql s3 =
     (if truthy (aws_profile s3) then
        Some (nl @ sp 16 @ ''CREATE SECRET aws_secret ('' @ nl
              @ sp 20 @ ''TYPE S3,'' @ nl
              @ sp 20 @ ''PROVIDER CREDENTIAL_CHAIN,'' @ nl
              @ sp 20 @ ''CHAIN '' @ sq @ ''config;env'' @ sq @ '','' @ nl
              @ sp 20 @ ''REGION '' @ sq @ py_str (s3_region s3) @ sq @ nl
              @ sp 16 @ '');'' @ nl @ sp 12)
      else if truthy (s3_access_key s3) \<and> truthy (s3_secret_key s3) then
        (let secret_params =
               nl @ sp 16 @ ''TYPE S3,'' @ nl
               @ sp 16 @ ''KEY_ID '' @ sq @ py_str (s3_access_key s3) @ sq @ '','' @ nl
               @ sp 16 @ ''SECRET '' @ sq @ py_str (s3_secret_key s3) @ sq @ '','' @ nl
               @ sp 16 @ ''REGION '' @ sq @ py_str (s3_region s3) @ sq @ nl @ sp 12;
             secret_params2 =
               (if truthy (s3_session_token s3)
                then secret_params @ '','' @ nl @ sp 16 @ ''SESSION_TOKEN '' @ sq
                     @ py_str (s3_session_token s3) @ sq
                else secret_params)
         in Some (nl @ sp 16 @ ''CREATE SECRET aws_secret ('' @ nl
                  @ sp 20 @ secret_params2 @ nl
                  @ sp 16 @ '');'' @ nl @ sp 12))
      else None)"

section \<open>What the collaborators do: the outcomes of the calls the exporter makes\<close>

text \<open>
  The DuckDB connection, the catalog extractor, the clock and the local file system are
  outside the exporter. Every call to them that can raise is given its outcome here:
  \<open>None\<close> for a call that returns, \<open>Some m\<close> for one that raises with message \<open>m\<close>.
\<close>

record outcome =
  start_error :: "string option"
  copy_error :: "string option"
  end_error :: "string option"

record routine_info =
  r_schema :: string
  r_name :: string
  r_definition :: string

record metadata =
  md_tables :: "table_info list"
  md_views :: "routine_info list"
  md_stored_procedures :: "routine_info list"
  md_procedures :: "routine_info list"
  md_functions :: "routine_info list"

text \<open>
  \<open>table_outcome w k\<close> holds the outcomes of the three statements executed for the table
  at position \<open>k\<close> of the discovery order: the ledger \<open>INSERT\<close>, the \<open>COPY\<close> of the data and
  the ledger \<open>UPDATE\<close>. \<open>blob_error\<close>, \<open>makedirs_error\<close> and \<open>open_error\<close> are given per
  path.
\<close>

record world =
  duckdb_connect_error :: "string option"
  init_error :: "string option"
  connect_error :: "string option"
  metadata_result :: "string + metadata"
  metadata_json :: string
  metadata_timestamp :: string
  blob_error :: "string \<Rightarrow> string option"
  makedirs_error :: "string \<Rightarrow> string option"
  open_error :: "string \<Rightarrow> string option"
  table_outcome :: "nat \<Rightarrow> outcome"
  log_timestamp :: string
  flush_error :: "string option"
  flush_local_error :: "string option"
  extractor_close_error :: "string option"
  duckdb_close_error :: "string option"

section \<open>State of a run\<close>

text \<open>
  \<open>export_logs\<close> is the in-memory table of that name, one record per row, without the two
  timestamp columns. \<open>uuid_counter\<close> stands for \<open>uuid.uuid4()\<close>: identifiers are drawn
  from a counter, so two identifiers of one run never coincide. \<open>transfers\<close> lists the
  \<open>COPY\<close> statements of table data handed to the engine, in order, whether they succeeded
  or not. \<open>remote_blobs\<close> and \<open>local_files\<close> list the artifacts written (path and content),
  \<open>local_dirs\<close> the directories \<open>os.makedirs\<close> was asked for, and \<open>progress_logs\<close> the
  flushed copies of the ledger (path and rows).
\<close>

record log_entry =
  e_id :: nat
  e_schema :: string
  e_table_name :: string
  e_full_name :: string
  e_s3_path :: string
  e_status :: string
  e_message :: string

record exporter_state =
  export_logs :: "log_entry list"
  uuid_counter :: nat
  transfers :: "string list"
  remote_blobs :: "(string \<times> string) list"
  local_dirs :: "string list"
  local_files :: "(string \<times> string) list"
  progress_logs :: "(string \<times> log_entry list) list"

definition initial_state :: exporter_state where
  "initial_state =
     \<lparr>export_logs = [], uuid_counter = 0, transfers = [], remote_blobs = [], local_dirs = [],
      local_files = [], progress_logs = []\<rparr>"

section \<open>The ledger operations\<close>

text \<open>
  \<open>_log_export_start\<close>: draw an identifier, execute the \<open>INSERT\<close>. When the statement
  raises no row is added.
\<close>

definition log_export_start ::
  "outcome \<Rightarrow> table_info \<Rightarrow> string \<Rightarrow> exporter_state \<Rightarrow> (py_error + nat) \<times> exporter_state" where
  "log_export_start oc table_info s3_path st =
     (let log_id = uuid_counter st;
          st1 = st\<lparr>uuid_counter := Suc log_id\<rparr>
      in case start_error oc of
           Some m \<Rightarrow> (Inl (EngineError m), st1)
         | None \<Rightarrow>
             (Inr log_id,
              st1\<lparr>export_logs := export_logs st1 @
                 [\<lparr>e_id = log_id, e_schema = schema table_info, e_table_name = name table_info,
                   e_full_name = full_name table_info, e_s3_path = s3_path,
                   e_status = ''in_progress'', e_message = []\<rparr>]\<rparr>))"

text \<open>
  \<open>_log_export_end\<close>: the \<open>UPDATE\<close> sets status and message of every row whose
  identifier is \<open>log_id\<close>. When the statement raises no row changes.
\<close>

definition log_export_end ::
  "outcome \<Rightarrow> nat \<Rightarrow> string \<Rightarrow> string \<Rightarrow> exporter_state \<Rightarrow> py_error option \<times> exporter_state" where
  "log_export_end oc log_id status message st =
     (case end_error oc of
        Some m \<Rightarrow> (Some (EngineError m), st)
      | None \<Rightarrow>
          (None,
           st\<lparr>export_logs :=
              map (\<lambda>e. if e_id e = log_id then e\<lparr>e_status := status, e_message := message\<rparr> else e)
                (export_logs st)\<rparr>))"

section \<open>Export of one table (\<open>DuckDBExporter.export_table_data\<close>)\<close>

text \<open>
  The \<open>except\<close> clause of the outer \<open>try\<close>: record the failure when a ledger entry was
  created, swallow an error of that recording, and raise the original exception again.
\<close>

definition export_failed ::
  "outcome \<Rightarrow> nat option \<Rightarrow> py_error \<Rightarrow> exporter_state \<Rightarrow> py_error option \<times> exporter_state" where
  "export_failed oc log_id e st =
     (case log_id of
        None \<Rightarrow> (Some e, st)
      | Some i \<Rightarrow> (Some e, snd (log_export_end oc i ''failed'' (str_of_error e) st)))"

text \<open>
  The result is the exception that leaves the function (\<open>None\<close> when it returns) and
  the state it leaves behind.
\<close>

definition export_table_data ::
  "config \<Rightarrow> outcome \<Rightarrow> table_info \<Rightarrow> exporter_state \<Rightarrow> py_error option \<times> exporter_state" where
  "export_table_data cfg oc table_info st =
     (let sort_order = get_table_sort_order table_info;
          path = table_s3_path (s3_bucket_path cfg) (schema table_info) (name table_info);
          (log_id, st1) =
             (case log_export_start oc table_info path st of
                (Inl e, s) \<Rightarrow> (None, s)
              | (Inr i, s) \<Rightarrow> (Some i, s))
      in case scan_function cfg table_info sort_order of
           Inl e \<Rightarrow> export_failed oc log_id e st1
         | Inr scan \<Rightarrow>
             (let st2 = st1\<lparr>transfers := transfers st1 @ [export_query cfg scan sort_order path]\<rparr>
              in case copy_error oc of
                   Some m \<Rightarrow> export_failed oc log_id (EngineError m) st2
                 | None \<Rightarrow>
                     (case log_id of
                        None \<Rightarrow> (None, st2)
                      | Some i \<Rightarrow>
                          (None, snd (log_export_end oc i ''success'' (''Exported to '' @ path) st2)))))"

section \<open>Blob writes with local fallback (\<open>DuckDBExporter._save_to_s3\<close>)\<close>

text \<open>
  \<open>os.path.dirname\<close> (POSIX): the part up to the last \<open>/\<close>, without its trailing slashes
  unless it consists of slashes only.
\<close>

definition dirname :: "string \<Rightarrow> string" where
  "dirname p =
     (let head = rev (dropWhile (\<lambda>c. c \<noteq> CHR ''/'') (rev p))
      in if head \<noteq> [] \<and> head \<noteq> replicate (length head) (CHR ''/'')
         then rev (dropWhile (\<lambda>c. c = CHR ''/'') (rev head)) else head)"

text \<open>\<open>os.makedirs(d, exist_ok=True)\<close>; the empty path is refused.\<close>

definition makedirs :: "world \<Rightarrow> string \<Rightarrow> exporter_state \<Rightarrow> py_error option \<times> exporter_state" where
  "makedirs w d st =
     (if d = [] then (Some (OSError ''No such file or directory''), st)
      else case makedirs_error w d of
             Some m \<Rightarrow> (Some (OSError m), st)
           | None \<Rightarrow> (None, st\<lparr>local_dirs := local_dirs st @ [d]\<rparr>))"

text \<open>
  The remote write is tried first. In the \<open>except\<close> clause nothing guards the local
  write: an error of \<open>os.makedirs\<close> or of \<open>open\<close> leaves the function.
\<close>

definition save_to_s3 ::
  "world \<Rightarrow> string \<Rightarrow> string \<Rightarrow> exporter_state \<Rightarrow> py_error option \<times> exporter_state" where
  "save_to_s3 w s3_path content st =
     (case blob_error w s3_path of
        None \<Rightarrow> (None, st\<lparr>remote_blobs := remote_blobs st @ [(s3_path, content)]\<rparr>)
      | Some m \<Rightarrow>
          (let local_path = py_replace ''s3://'' ''local_export/'' s3_path
           in case makedirs w (dirname local_path) st of
                (Some e, st1) \<Rightarrow> (Some e, st1)
              | (None, st1) \<Rightarrow>
                  (case open_error w local_path of
                     Some m2 \<Rightarrow> (Some (OSError m2), st1)
                   | None \<Rightarrow>
                       (None, st1\<lparr>local_files := local_files st1 @ [(local_path, content)]\<rparr>))))"

section \<open>Ledger flush (\<open>DuckDBExporter._write_progress_to_s3\<close>)\<close>

text \<open>
  Here the local fallback sits in a \<open>try\<close> of its own: only \<open>os.makedirs\<close>, which
  precedes it, can make the function raise.
\<close>

definition write_progress_to_s3 ::
  "config \<Rightarrow> world \<Rightarrow> exporter_state \<Rightarrow> py_error option \<times> exporter_state" where
  "write_progress_to_s3 cfg w st =
     (let s3_logs_path = s3_bucket_path cfg @ ''/logs/export_log_'' @ log_timestamp w @ ''.parquet''
      in case flush_error w of
           None \<Rightarrow> (None, st\<lparr>progress_logs := progress_logs st @ [(s3_logs_path, export_logs st)]\<rparr>)
         | Some m \<Rightarrow>
             (let local_path = py_replace ''s3://'' ''local_export/'' s3_logs_path
              in case makedirs w (dirname local_path) st of
                   (Some e, st1) \<Rightarrow> (Some e, st1)
                 | (None, st1) \<Rightarrow>
                     (case flush_local_error w of
                        Some m2 \<Rightarrow> (None, st1)
                      | None \<Rightarrow>
                          (None,
                           st1\<lparr>progress_logs := progress_logs st1 @
                              [(py_replace ''.parquet'' ''.csv'' local_path, export_logs st1)]\<rparr>))))"

section \<open>The per-table loop (\<open>DuckDBExporter.export_all_tables\<close>)\<close>

text \<open>
  The body of the \<open>for\<close> loop catches every exception of \<open>export_table_data\<close> and goes
  on with the next table; \<open>idx\<close> is the position of the table in the discovery order.
\<close>

fun export_tables_loop ::
  "config \<Rightarrow> (nat \<Rightarrow> outcome) \<Rightarrow> nat \<Rightarrow> table_info list \<Rightarrow> exporter_state \<Rightarrow> exporter_state" where
  "export_tables_loop cfg ow idx [] st = st"
| "export_tables_loop cfg ow idx (table_info # rest) st =
     (case export_table_data cfg (ow idx) table_info st of
        (Some e, st1) \<Rightarrow> export_tables_loop cfg ow (Suc idx) rest st1
      | (None, st1) \<Rightarrow> export_tables_loop cfg ow (Suc idx) rest st1)"

definition export_all_tables ::
  "config \<Rightarrow> world \<Rightarrow> metadata \<Rightarrow> exporter_state \<Rightarrow> py_error option \<times> exporter_state" where
  "export_all_tables cfg w md st =
     (let st1 = export_tables_loop cfg (table_outcome w) 0 (md_tables md) st
      in case write_progress_to_s3 cfg w st1 of
           (Some e, st2) \<Rightarrow> (None, st2)
         | (None, st2) \<Rightarrow> (None, st2))"

section \<open>Connection and metadata stages\<close>

text \<open>\<open>initialize_duckdb\<close>: on success the ledger table exists and is empty.\<close>

definition initialize_duckdb :: "world \<Rightarrow> py_error option \<times> exporter_state" where
  "initialize_duckdb w =
     (case duckdb_connect_error w of
        Some m \<Rightarrow> (Some (EngineError m), initial_state)
      | None \<Rightarrow>
          (case init_error w of
             Some m \<Rightarrow> (Some (EngineError m), initial_state)
           | None \<Rightarrow> (None, initial_state)))"

datatype extractor =
  SqlServerMetadataExtractor | PostgreSQLMetadataExtractor | OracleMetadataExtractor

text \<open>
  \<open>connect_to_source\<close>: the extractor is chosen by the engine name and then connected.
  The first component tells which extractor object was built before an error, if any.
\<close>

definition choose_extractor :: "config \<Rightarrow> py_error + extractor" where
  "choose_extractor cfg =
     (if db_type cfg = ''sqlserver'' then Inr SqlServerMetadataExtractor
      else if db_type cfg = ''postgresql'' then Inr PostgreSQLMetadataExtractor
      else if db_type cfg = ''oracle'' then Inr OracleMetadataExtractor
      else Inl (ValueError (''Unsupported database type: '' @ db_type cfg)))"

definition connect_to_source :: "config \<Rightarrow> world \<Rightarrow> py_error + extractor" where
  "connect_to_source cfg w =
     (case choose_extractor cfg of
        Inl e \<Rightarrow> Inl e
      | Inr x \<Rightarrow>
          (case connect_error w of
             Some m \<Rightarrow> Inl (EngineError m)
           | None \<Rightarrow> Inr x))"

text \<open>
  \<open>extract_metadata\<close>: the artifacts in the order they are saved, the JSON document
  first, then one file per table, per view and per routine.
\<close>

definition metadata_artifacts :: "config \<Rightarrow> world \<Rightarrow> metadata \<Rightarrow> (string \<times> string) list" where
  "metadata_artifacts cfg w md =
     (let metadata_path = s3_bucket_path cfg @ ''/metadata''
      in [(metadata_path @ ''/metadata_'' @ metadata_timestamp w @ ''.json'', metadata_json w)]
         @ map (\<lambda>t. (metadata_path @ ''/tables/'' @ schema t @ ''/'' @ name t @ ''.sql'', ddl t))
             (md_tables md)
         @ map (\<lambda>v. (metadata_path @ ''/views/'' @ r_schema v @ ''/'' @ r_name v @ ''.sql'',
                      r_definition v))
             (md_views md)
         @ map (\<lambda>p. (metadata_path @ ''/procedures/'' @ r_schema p @ ''/'' @ r_name p @ ''.sql'',
                      r_definition p))
             (md_stored_procedures md @ md_procedures md @ md_functions md))"

fun save_all ::
  "world \<Rightarrow> (string \<times> string) list \<Rightarrow> exporter_state \<Rightarrow> py_error option \<times> exporter_state" where
  "save_all w [] st = (None, st)"
| "save_all w ((s3_path, content) # rest) st =
     (case save_to_s3 w s3_path content st of
        (Some e, st1) \<Rightarrow> (Some e, st1)
      | (None, st1) \<Rightarrow> save_all w rest st1)"

definition extract_metadata ::
  "config \<Rightarrow> world \<Rightarrow> exporter_state \<Rightarrow> (py_error + metadata) \<times> exporter_state" where
  "extract_metadata cfg w st =
     (case metadata_result w of
        Inl m \<Rightarrow> (Inl (EngineError m), st)
      | Inr md \<Rightarrow>
          (case save_all w (metadata_artifacts cfg w md) st of
             (Some e, st1) \<Rightarrow> (Inl e, st1)
           | (None, st1) \<Rightarrow> (Inr md, st1)))"

section \<open>The run (\<open>DuckDBExporter.run\<close>)\<close>

datatype exit_status = ExitSuccess | ExitFailure

text \<open>
  The \<open>finally\<close> clause closes the source connection and the DuckDB connection when they
  were opened (the extractor's \<open>close\<close> does nothing without a connection); an exception
  raised there ends the process with a failure status as well.
\<close>

definition cleanup :: "world \<Rightarrow> bool \<Rightarrow> bool \<Rightarrow> exit_status \<Rightarrow> exit_status" where
  "cleanup w has_source has_conn status =
     (if has_source \<and> extractor_close_error w \<noteq> None then ExitFailure
      else if has_conn \<and> duckdb_close_error w \<noteq> None then ExitFailure
      else status)"

text \<open>
  The four steps in a \<open>try\<close>; any exception that reaches \<open>run\<close> is reported and turned
  into \<open>sys.exit(1)\<close>.
\<close>

definition run :: "config \<Rightarrow> world \<Rightarrow> exit_status \<times> exporter_state" where
  "run cfg w =
     (case initialize_duckdb w of
        (Some e, st0) \<Rightarrow> (cleanup w False (duckdb_connect_error w = None) ExitFailure, st0)
      | (None, st0) \<Rightarrow>
          (case connect_to_source cfg w of
             Inl e \<Rightarrow> (cleanup w False True ExitFailure, st0)
           | Inr x \<Rightarrow>
               (case extract_metadata cfg w st0 of
                  (Inl e, st1) \<Rightarrow> (cleanup w True True ExitFailure, st1)
                | (Inr md, st1) \<Rightarrow>
                    (case export_all_tables cfg w md st1 of
                       (Some e, st2) \<Rightarrow> (cleanup w True True ExitFailure, st2)
                     | (None, st2) \<Rightarrow> (cleanup w True True ExitSuccess, st2)))))"

section \<open>Vocabulary for the ledger properties\<close>

text \<open>
  Identifiers already in the ledger lie below the counter, so the next identifier drawn is
  new. This holds for the empty ledger a run starts with.
\<close>

definition fresh_ids :: "exporter_state \<Rightarrow> bool" where
  "fresh_ids st = list_all (\<lambda>e. e_id e < uuid_counter st) (export_logs st)"

text \<open>
  The \<open>COPY\<close> statement that \<open>export_table_data\<close> hands to the engine for a table, or the
  error of the scan function when there is none.
\<close>

definition table_export_query :: "config \<Rightarrow> table_info \<Rightarrow> py_error + string" where
  "table_export_query cfg t =
     (case scan_function cfg t (get_table_sort_order t) of
        Inl e \<Rightarrow> Inl e
      | Inr scan \<Rightarrow>
          Inr (export_query cfg scan (get_table_sort_order t)
                 (table_s3_path (s3_bucket_path cfg) (schema t) (name t))))"

text \<open>
  The exception with which the export of a table ends (\<open>None\<close> when it succeeds), read off
  the engine name and the outcome of the \<open>COPY\<close> alone.
\<close>

definition export_error :: "config \<Rightarrow> outcome \<Rightarrow> table_info \<Rightarrow> py_error option" where
  "export_error cfg oc t =
     (case table_export_query cfg t of
        Inl e \<Rightarrow> Some e
      | Inr q \<Rightarrow> map_option EngineError (copy_error oc))"

text \<open>
  The ledger rows a table is expected to leave behind: the row as \<open>_log_export_start\<close>
  creates it, the row once the export has ended (untouched when the \<open>UPDATE\<close> fails), no
  row at all when the \<open>INSERT\<close> fails, and the rows of a sequence of tables processed from
  position \<open>idx\<close> with identifiers from \<open>i\<close> on.
\<close>

definition new_entry :: "config \<Rightarrow> nat \<Rightarrow> table_info \<Rightarrow> log_entry" where
  "new_entry cfg i t =
     \<lparr>e_id = i, e_schema = schema t, e_table_name = name t, e_full_name = full_name t,
      e_s3_path = table_s3_path (s3_bucket_path cfg) (schema t) (name t),
      e_status = ''in_progress'', e_message = []\<rparr>"

definition final_entry :: "config \<Rightarrow> outcome \<Rightarrow> nat \<Rightarrow> table_info \<Rightarrow> log_entry" where
  "final_entry cfg oc i t =
     (case end_error oc of
        Some m \<Rightarrow> new_entry cfg i t
      | None \<Rightarrow>
          (case export_error cfg oc t of
             Some e \<Rightarrow> (new_entry cfg i t)\<lparr>e_status := ''failed'', e_message := str_of_error e\<rparr>
           | None \<Rightarrow> (new_entry cfg i t)\<lparr>e_status := ''success'',
                e_message := ''Exported to '' @ table_s3_path (s3_bucket_path cfg) (schema t) (name t)\<rparr>))"

definition ledger_rows :: "config \<Rightarrow> outcome \<Rightarrow> nat \<Rightarrow> table_info \<Rightarrow> log_entry list" where
  "ledger_rows cfg oc i t = (case start_error oc of Some m \<Rightarrow> [] | None \<Rightarrow> [final_entry cfg oc i t])"

fun loop_rows :: "config \<Rightarrow> (nat \<Rightarrow> outcome) \<Rightarrow> nat \<Rightarrow> nat \<Rightarrow> table_info list \<Rightarrow> log_entry list" where
  "loop_rows cfg ow idx i [] = []"
| "loop_rows cfg ow idx i (t # ts) = ledger_rows cfg (ow idx) i t @ loop_rows cfg ow (Suc idx) (Suc i) ts"

section \<open>Vocabulary for the escaping properties\<close>

text \<open>
  How an SQL engine reads quoted tokens, for a quote character \<open>q\<close>: a token starts at
  a quote; inside it two quotes in a row stand for one quote character, and a single
  quote ends it. The result lists the tokens of a text in order, or is \<open>None\<close> when the
  text ends inside a token. The second argument is \<open>None\<close> outside a token and holds the
  characters read so far, last first, inside one.
\<close>

fun lex_quoted :: "char \<Rightarrow> string option \<Rightarrow> string \<Rightarrow> string list option" where
  "lex_quoted q None [] = Some []"
| "lex_quoted q (Some acc) [] = None"
| "lex_quoted q None (c # cs) =
     (if c = q then lex_quoted q (Some []) cs else lex_quoted q None cs)"
| "lex_quoted q (Some acc) [c] = (if c = q then Some [rev acc] else None)"
| "lex_quoted q (Some acc) (c # d # cs) =
     (if c = q then
        (if d = q then lex_quoted q (Some (q # acc)) cs
         else map_option ((#) (rev acc)) (lex_quoted q None (d # cs)))
      else lex_quoted q (Some (c # acc)) (d # cs))"

text \<open>The single-quoted literals of a statement, as the engine reads them.\<close>

definition sql_literals :: "string \<Rightarrow> string list option" where
  "sql_literals s = lex_quoted (CHR 0x27) None s"

text \<open>
  Reading a statement from its start, one quoted token at a time: \<open>read_quoted\<close> reads
  the token whose opening quote has just been passed and returns its value and the text
  after its closing quote; \<open>next_quoted\<close> skips to the next opening quote first;
  \<open>first_quoted q n\<close> returns the first \<open>n\<close> tokens, whatever follows them.
\<close>

fun read_quoted :: "char \<Rightarrow> string \<Rightarrow> string \<Rightarrow> (string \<times> string) option" where
  "read_quoted q acc [] = None"
| "read_quoted q acc [c] = (if c = q then Some (rev acc, []) else None)"
| "read_quoted q acc (c # d # cs) =
     (if c = q then (if d = q then read_quoted q (q # acc) cs else Some (rev acc, d # cs))
      else read_quoted q (c # acc) (d # cs))"

fun next_quoted :: "char \<Rightarrow> string \<Rightarrow> (string \<times> string) option" where
  "next_quoted q [] = None"
| "next_quoted q (c # cs) = (if c = q then read_quoted q [] cs else next_quoted q cs)"

fun first_quoted :: "char \<Rightarrow> nat \<Rightarrow> string \<Rightarrow> string list option" where
  "first_quoted q 0 s = Some []"
| "first_quoted q (Suc n) s =
     (case next_quoted q s of
        None \<Rightarrow> None
      | Some (v, rest) \<Rightarrow> map_option ((#) v) (first_quoted q n rest))"

text \<open>The first \<open>n\<close> single-quoted literals of a statement.\<close>

definition first_literals :: "nat \<Rightarrow> string \<Rightarrow> string list option" where
  "first_literals n s = first_quoted (CHR 0x27) n s"

text \<open>
  The first \<open>n\<close> literals of the \<open>COPY\<close> statement that \<open>export_table_data\<close> hands to the
  engine for a table.
\<close>

definition copy_literals :: "nat \<Rightarrow> config \<Rightarrow> table_info \<Rightarrow> py_error + string list option" where
  "copy_literals n cfg t =
     (case table_export_query cfg t of
        Inl e \<Rightarrow> Inl e
      | Inr q \<Rightarrow> Inr (first_literals n q))"

section \<open>Example inputs\<close>

definition orders_table :: table_info where
  "orders_table =
     \<lparr>schema = ''sales'', name = ''orders'', full_name = ''sales.orders'', ddl = [],
      columns = [\<lparr>c_name = ''note''\<rparr>, \<lparr>c_name = ''order_id''\<rparr>],
      primary_key = Some \<lparr>k_name = ''pk_orders'', k_columns = [''order_id'', ''line_no'']\<rparr>,
      indexes = [\<lparr>i_name = ''ix_note'', i_type = Some ''CLUSTERED'', is_unique = True,
                 i_columns = [''note'']\<rparr>]\<rparr>"

definition legacy_table :: table_info where
  "legacy_table =
     \<lparr>schema = ''sales'', name = ''legacy'', full_name = ''sales.legacy'', ddl = [],
      columns = [\<lparr>c_name = ''id''\<rparr>, \<lparr>c_name = ''payload''\<rparr>],
      primary_key = None,
      indexes = [\<lparr>i_name = ''ix_a'', i_type = Some ''NONCLUSTERED'', is_unique = False,
                 i_columns = [''payload'']\<rparr>,
                 \<lparr>i_name = ''ix_b'', i_type = Some ''NONCLUSTERED'', is_unique = True,
                 i_columns = [''id'']\<rparr>,
                 \<lparr>i_name = ''ix_c'', i_type = Some ''CLUSTERED'', is_unique = False,
                 i_columns = [''payload'', ''id'']\<rparr>]\<rparr>"

definition empty_key_table :: table_info where
  "empty_key_table =
     \<lparr>schema = ''sales'', name = ''audit'', full_name = ''sales.audit'', ddl = [],
      columns = [\<lparr>c_name = ''id''\<rparr>, \<lparr>c_name = ''payload''\<rparr>],
      primary_key = Some \<lparr>k_name = ''pk_audit'', k_columns = []\<rparr>,
      indexes = [\<lparr>i_name = ''ix_c'', i_type = Some ''CLUSTERED'', is_unique = True,
                 i_columns = [''payload'']\<rparr>]\<rparr>"

definition cfg_pg :: config where
  "cfg_pg = \<lparr>db_type = ''postgresql'', server = ''db.example'', database = ''shop'', port = ''5432'',
      auth_type = ''password'', username = Some ''reader'', password = Some ''secret'',
      s3_bucket_path = ''s3://bucket''\<rparr>"

definition cfg_mysql :: config where
  "cfg_mysql = cfg_pg\<lparr>db_type := ''mysql''\<rparr>"

definition three_tables :: metadata where
  "three_tables = \<lparr>md_tables = [orders_table, legacy_table, empty_key_table], md_views = [],
      md_stored_procedures = [], md_procedures = [], md_functions = []\<rparr>"

definition one_table :: metadata where
  "one_table = three_tables\<lparr>md_tables := [orders_table]\<rparr>"

definition ok_outcome :: outcome where
  "ok_outcome = \<lparr>start_error = None, copy_error = None, end_error = None\<rparr>"

definition calm_world :: world where
  "calm_world =
     \<lparr>duckdb_connect_error = None, init_error = None, connect_error = None,
      metadata_result = Inr three_tables, metadata_json = ''{}'', metadata_timestamp = ''20240101_000000'',
      blob_error = (\<lambda>p. None), makedirs_error = (\<lambda>p. None), open_error = (\<lambda>p. None),
      table_outcome = (\<lambda>k. ok_outcome), log_timestamp = ''20240101_000001'',
      flush_error = None, flush_local_error = None,
      extractor_close_error = None, duckdb_close_error = None\<rparr>"

definition second_fails_world :: world where
  "second_fails_world =
     calm_world\<lparr>table_outcome :=
       (\<lambda>k. if k = 1 then ok_outcome\<lparr>copy_error := Some ''boom''\<rparr> else ok_outcome)\<rparr>"

definition ledger_down_world :: world where
  "ledger_down_world =
     calm_world\<lparr>metadata_result := Inr one_table,
       table_outcome := (\<lambda>k. \<lparr>start_error = Some ''no ledger'', copy_error = Some ''boom'',
                               end_error = Some ''no ledger''\<rparr>)\<rparr>"


definition remote_down_world :: world where
  "remote_down_world = calm_world\<lparr>blob_error := (\<lambda>p. Some ''S3 unreachable'')\<rparr>"

definition fallback_fails_world :: world where
  "fallback_fails_world = remote_down_world\<lparr>open_error := (\<lambda>p. Some ''Permission denied'')\<rparr>"

definition flush_fails_world :: world where
  "flush_fails_world =
     calm_world\<lparr>flush_error := Some ''S3 unreachable'', flush_local_error := Some ''Permission denied''\<rparr>"

text \<open>
  A table named \<open>o'brien\<close> whose key column is named \<open>a"b\<close>, the metadata of a database
  that holds this table alone, and settings for the secret whose region is \<open>eu'west\<close>.
\<close>

definition odd_table :: table_info where
  "odd_table =
     \<lparr>schema = ''sales'', name = [CHR ''o'', CHR 0x27, CHR ''b'', CHR ''r'', CHR ''i'', CHR ''e'', CHR ''n''],
      full_name = ''sales.o'' @ [CHR 0x27] @ ''brien'',
      ddl = ''CREATE TABLE sales.o'' @ [CHR 0x27] @ ''brien'',
      columns = [\<lparr>c_name = [CHR ''a'', CHR 0x22, CHR ''b'']\<rparr>],
      primary_key = Some \<lparr>k_name = ''pk_odd'', k_columns = [[CHR ''a'', CHR 0x22, CHR ''b'']]\<rparr>,
      indexes = []\<rparr>"

definition cfg_mssql :: config where
  "cfg_mssql = cfg_pg\<lparr>db_type := ''sqlserver''\<rparr>"

definition odd_metadata :: metadata where
  "odd_metadata = three_tables\<lparr>md_tables := [odd_table]\<rparr>"

definition profile_settings :: s3_settings where
  "profile_settings =
     \<lparr>aws_profile = Some ''default'', s3_access_key = None, s3_secret_key = None,
      s3_session_token = None, s3_region = Some (''eu'' @ [CHR 0x27] @ ''west'')\<rparr>"

section \<open>Properties of the sort-order selector\<close>

lemma clustered_loop_find:
  "clustered_loop ixs =
     map_option (\<lambda>i. sort_clause (i_columns i)) (find (\<lambda>i. i_type i = Some ''CLUSTERED'') ixs)"
  by (induction ixs) simp_all

lemma unique_loop_find:
  "unique_loop ixs = map_option (\<lambda>i. sort_clause (i_columns i)) (find is_unique ixs)"
  by (induction ixs) simp_all



text \<open>
  C3. Without a primary key the selector falls back, in this order, to the columns of the
  first index of the sequence whose type is \<open>CLUSTERED\<close>, then to the columns of the first
  index flagged unique, then to the first column of the table alone, and finally, for a
  table without columns, to the empty ordering.
\<close>

theorem sort_order_fallback_chain:
  "primary_key t = None \<Longrightarrow>
   get_table_sort_order t =
     (case find (\<lambda>i. i_type i = Some ''CLUSTERED'') (indexes t) of
        Some i \<Rightarrow> sort_clause (i_columns i)
      | None \<Rightarrow>
          (case find is_unique (indexes t) of
             Some i \<Rightarrow> sort_clause (i_columns i)
           | None \<Rightarrow>
               (case columns t of
                  [] \<Rightarrow> []
                | c # _ \<Rightarrow> sort_clause [c_name c])))"
  by (simp add: get_table_sort_order_def clustered_loop_find unique_loop_find sort_clause_def
      split: option.splits list.splits)

theorem sort_order_fallback_chain_witness:
  "primary_key legacy_table = None
   \<and> get_table_sort_order legacy_table
       = CHR 0x22 # ''payload'' @ CHR 0x22 # '', '' @ CHR 0x22 # ''id'' @ [CHR 0x22]"
  using sort_order_fallback_chain [of legacy_table]
  by (simp add: legacy_table_def sort_clause_def quoted_def)

text \<open>
  C9. A primary key that is present but lists no columns yields the empty ordering at once:
  the result does not depend on the indexes or the columns of the table.
\<close>

theorem empty_primary_key_sort_order:
  "primary_key t = Some pk \<Longrightarrow> k_columns pk = [] \<Longrightarrow> get_table_sort_order t = []"
  by (simp add: get_table_sort_order_def sort_clause_def)

theorem empty_primary_key_sort_order_witness:
  "primary_key empty_key_table = Some \<lparr>k_name = ''pk_audit'', k_columns = []\<rparr>
   \<and> k_columns \<lparr>k_name = ''pk_audit'', k_columns = []\<rparr> = []
   \<and> indexes empty_key_table \<noteq> [] \<and> columns empty_key_table \<noteq> []
   \<and> get_table_sort_order empty_key_table = []"
  using empty_primary_key_sort_order
    [of empty_key_table "\<lparr>k_name = ''pk_audit'', k_columns = []\<rparr>"]
  by (simp add: empty_key_table_def)

section \<open>Properties of the destination path\<close>

lemma first_sep_unique:
  "c \<notin> set p \<Longrightarrow> c \<notin> set q \<Longrightarrow> p @ c # u = q @ c # v \<Longrightarrow> p = q \<and> u = v"
proof (induction p arbitrary: q)
  case Nil
  then show ?case by (cases q) auto
next
  case (Cons h p)
  then show ?case by (cases q) auto
qed

lemma last_sep_unique:
  assumes "x @ c # a = y @ c # b" and "c \<notin> set a" and "c \<notin> set b"
  shows "x = y \<and> a = b"
proof -
  from assms(1) have "rev (x @ c # a) = rev (y @ c # b)" by simp
  then have "rev a @ c # rev x = rev b @ c # rev y" by simp
  moreover have "c \<notin> set (rev a)" "c \<notin> set (rev b)" using assms(2,3) by simp_all
  ultimately have "rev a = rev b \<and> rev x = rev y"
    using first_sep_unique [of c "rev a" "rev b" "rev x" "rev y"] by blast
  then show ?thesis by simp
qed

lemma table_s3_path_eqD:
  assumes "table_s3_path root s1 t1 = table_s3_path root s2 t2"
    and "CHR ''/'' \<notin> set t1" and "CHR ''/'' \<notin> set t2"
  shows "s1 = s2 \<and> t1 = t2"
proof -
  from assms(1) have "(s1 @ ''/'' @ t1) @ CHR ''/'' # (t1 @ ''.parquet'')
      = (s2 @ ''/'' @ t2) @ CHR ''/'' # (t2 @ ''.parquet'')"
    by (simp add: table_s3_path_def)
  moreover have "CHR ''/'' \<notin> set (t1 @ ''.parquet'')" "CHR ''/'' \<notin> set (t2 @ ''.parquet'')"
    using assms(2,3) by simp_all
  ultimately have *: "s1 @ ''/'' @ t1 = s2 @ ''/'' @ t2 \<and> t1 @ ''.parquet'' = t2 @ ''.parquet''"
    by (rule last_sep_unique)
  then have "t1 = t2" by simp
  with * show ?thesis by simp
qed

text \<open>
  C4, as stated: two distinct (schema, table) pairs never produce the same path. The path
  is a plain concatenation, so a table name that contains the separator can be read as
  part of the schema: the pairs \<open>("a//", "/")\<close> and \<open>("a", "//")\<close> are distinct and
  share one path.
\<close>

theorem table_s3_path_collision:
  "(''a//'', ''/'') \<noteq> (''a'', ''//'')
   \<and> table_s3_path ''s3://bucket'' ''a//'' ''/'' = table_s3_path ''s3://bucket'' ''a'' ''//''"
  by (simp add: table_s3_path_def)

text \<open>
  C4, amended: two distinct (schema, table) pairs whose table names contain no \<open>/\<close>
  never produce the same path (the schema names and the bucket root are arbitrary).
\<close>

theorem table_s3_path_injective:
  "(s1, t1) \<noteq> (s2, t2) \<Longrightarrow> CHR ''/'' \<notin> set t1 \<Longrightarrow> CHR ''/'' \<notin> set t2 \<Longrightarrow>
   table_s3_path root s1 t1 \<noteq> table_s3_path root s2 t2"
  using table_s3_path_eqD [of root s1 t1 s2 t2] by auto

theorem table_s3_path_injective_witness:
  "(''sales/eu'', ''orders'') \<noteq> (''sales'', ''eu.orders'')
   \<and> CHR ''/'' \<notin> set ''orders'' \<and> CHR ''/'' \<notin> set ''eu.orders''
   \<and> table_s3_path ''s3://bucket'' ''sales/eu'' ''orders''
       \<noteq> table_s3_path ''s3://bucket'' ''sales'' ''eu.orders''"
  using table_s3_path_injective [of "''sales/eu''" "''orders''" "''sales''" "''eu.orders''" "''s3://bucket''"]
  by simp

section \<open>Properties of the export of one table\<close>

lemma export_table_data_result:
  "fst (export_table_data cfg oc t st) = export_error cfg oc t"
  by (auto simp: export_table_data_def export_failed_def export_error_def table_export_query_def Let_def
      split: option.splits sum.splits prod.splits)

lemma export_table_data_transfers:
  "transfers (snd (export_table_data cfg oc t st)) =
     transfers st @ (case table_export_query cfg t of Inl e \<Rightarrow> [] | Inr q \<Rightarrow> [q])"
  by (auto simp: export_table_data_def export_failed_def table_export_query_def Let_def
       log_export_start_def log_export_end_def
      split: option.splits sum.splits prod.splits)

lemma export_table_data_counter:
  "uuid_counter (snd (export_table_data cfg oc t st)) = Suc (uuid_counter st)"
  by (auto simp: export_table_data_def export_failed_def Let_def
       log_export_start_def log_export_end_def
      split: option.splits sum.splits prod.splits)

lemma update_other_ids:
  "list_all (\<lambda>e. e_id e < i) L \<Longrightarrow> map (\<lambda>e. if e_id e = i then f e else e) L = L"
  by (induction L) auto

lemma export_table_data_ledger:
  "fresh_ids st \<Longrightarrow>
   export_logs (snd (export_table_data cfg oc t st)) =
     export_logs st @ ledger_rows cfg oc (uuid_counter st) t"
  by (auto simp: export_table_data_def export_failed_def Let_def fresh_ids_def
       log_export_start_def log_export_end_def ledger_rows_def final_entry_def new_entry_def
       export_error_def table_export_query_def update_other_ids
      split: option.splits sum.splits prod.splits)


lemma export_table_data_fresh:
  assumes "fresh_ids st"
  shows "fresh_ids (snd (export_table_data cfg oc t st))"
proof -
  have "list_all (\<lambda>e. e_id e < Suc (uuid_counter st)) (export_logs st)"
    using assms by (simp add: fresh_ids_def list_all_iff less_Suc_eq)
  moreover have "list_all (\<lambda>e. e_id e < Suc (uuid_counter st)) (ledger_rows cfg oc (uuid_counter st) t)"
    by (simp add: ledger_rows_def final_entry_def new_entry_def split: option.splits)
  ultimately show ?thesis
    using assms by (simp add: fresh_ids_def export_table_data_ledger export_table_data_counter)
qed

lemma loop_step:
  "export_tables_loop cfg ow idx (t # ts) st =
     export_tables_loop cfg ow (Suc idx) ts (snd (export_table_data cfg (ow idx) t st))"
  by (simp split: prod.splits option.splits)

lemma loop_ledger:
  "fresh_ids st \<Longrightarrow>
   export_logs (export_tables_loop cfg ow idx ts st) =
     export_logs st @ loop_rows cfg ow idx (uuid_counter st) ts"
proof (induction ts arbitrary: idx st)
  case Nil
  then show ?case by simp
next
  case (Cons t ts)
  let ?st1 = "snd (export_table_data cfg (ow idx) t st)"
  have "fresh_ids ?st1" using Cons.prems by (rule export_table_data_fresh)
  then have "export_logs (export_tables_loop cfg ow (Suc idx) ts ?st1) =
      export_logs ?st1 @ loop_rows cfg ow (Suc idx) (uuid_counter ?st1) ts"
    by (rule Cons.IH)
  then show ?case
    using Cons.prems
    by (simp only: loop_step export_table_data_ledger export_table_data_counter
        loop_rows.simps append_assoc)
qed

lemma loop_transfers:
  "transfers (export_tables_loop cfg ow idx ts st) =
     transfers st @ concat (map (\<lambda>t. case table_export_query cfg t of Inl e \<Rightarrow> [] | Inr q \<Rightarrow> [q]) ts)"
proof (induction ts arbitrary: idx st)
  case Nil
  then show ?case by simp
next
  case (Cons t ts)
  show ?case
    by (simp only: loop_step Cons.IH export_table_data_transfers list.map concat.simps append_assoc)
qed

lemma loop_rows_member:
  "e \<in> set (loop_rows cfg ow idx i ts) \<longleftrightarrow>
     (\<exists>k<length ts. start_error (ow (idx + k)) = None
         \<and> e = final_entry cfg (ow (idx + k)) (i + k) (ts ! k))"
proof (induction ts arbitrary: idx i)
  case Nil
  then show ?case by simp
next
  case (Cons t ts)
  have "(\<exists>k<length (t # ts). start_error (ow (idx + k)) = None
         \<and> e = final_entry cfg (ow (idx + k)) (i + k) ((t # ts) ! k))
     \<longleftrightarrow> (start_error (ow idx) = None \<and> e = final_entry cfg (ow idx) i t)
        \<or> (\<exists>k<length ts. start_error (ow (Suc idx + k)) = None
         \<and> e = final_entry cfg (ow (Suc idx + k)) (Suc i + k) (ts ! k))"
    by (auto simp: less_Suc_eq_0_disj)
  then show ?case
    by (auto simp: Cons.IH ledger_rows_def split: option.splits)
qed

lemma write_progress_keeps:
  "export_logs (snd (write_progress_to_s3 cfg w st)) = export_logs st"
  "transfers (snd (write_progress_to_s3 cfg w st)) = transfers st"
  by (auto simp: write_progress_to_s3_def makedirs_def Let_def split: option.splits prod.splits)

lemma export_all_tables_returns: "fst (export_all_tables cfg w md st) = None"
  by (simp add: export_all_tables_def Let_def split: prod.splits option.splits)

lemma export_all_tables_snd:
  "snd (export_all_tables cfg w md st) =
     snd (write_progress_to_s3 cfg w (export_tables_loop cfg (table_outcome w) 0 (md_tables md) st))"
  by (cases "write_progress_to_s3 cfg w (export_tables_loop cfg (table_outcome w) 0 (md_tables md) st)")
     (auto simp: export_all_tables_def Let_def split: option.splits)

lemma export_all_tables_ledger:
  "fresh_ids st \<Longrightarrow>
   export_logs (snd (export_all_tables cfg w md st)) =
     export_logs st @ loop_rows cfg (table_outcome w) 0 (uuid_counter st) (md_tables md)"
  by (simp add: export_all_tables_snd write_progress_keeps loop_ledger)

lemma export_all_tables_transfers:
  "transfers (snd (export_all_tables cfg w md st)) =
     transfers st @ concat (map (\<lambda>t. case table_export_query cfg t of Inl e \<Rightarrow> [] | Inr q \<Rightarrow> [q])
        (md_tables md))"
  by (simp add: export_all_tables_snd write_progress_keeps loop_transfers)

lemma makedirs_table_outcome:
  "makedirs (w\<lparr>table_outcome := ow\<rparr>) d st = makedirs w d st"
  by (simp add: makedirs_def)

lemma save_to_s3_table_outcome:
  "save_to_s3 (w\<lparr>table_outcome := ow\<rparr>) p c st = save_to_s3 w p c st"
  by (auto simp: save_to_s3_def makedirs_table_outcome Let_def split: option.splits prod.splits)

lemma save_all_table_outcome:
  "save_all (w\<lparr>table_outcome := ow\<rparr>) xs st = save_all w xs st"
  by (induction xs arbitrary: st) (auto simp: save_to_s3_table_outcome split: prod.splits option.splits)

lemma metadata_artifacts_table_outcome:
  "metadata_artifacts cfg (w\<lparr>table_outcome := ow\<rparr>) md = metadata_artifacts cfg w md"
  by (simp add: metadata_artifacts_def)

lemma extract_metadata_table_outcome:
  "extract_metadata cfg (w\<lparr>table_outcome := ow\<rparr>) st = extract_metadata cfg w st"
  by (simp add: extract_metadata_def metadata_artifacts_table_outcome save_all_table_outcome
      cong: sum.case_cong)

lemma export_all_tables_case:
  "(case export_all_tables cfg w md st1 of (Some e, st2) \<Rightarrow> f e st2 | (None, st2) \<Rightarrow> g st2)
     = g (snd (export_all_tables cfg w md st1))"
  using export_all_tables_returns [of cfg w md st1]
  by (cases "export_all_tables cfg w md st1") auto

lemma run_status:
  "fst (run cfg w) =
     (case initialize_duckdb w of
        (Some e, st0) \<Rightarrow> cleanup w False (duckdb_connect_error w = None) ExitFailure
      | (None, st0) \<Rightarrow>
          (case connect_to_source cfg w of
             Inl e \<Rightarrow> cleanup w False True ExitFailure
           | Inr x \<Rightarrow>
               (case extract_metadata cfg w st0 of
                  (Inl e, st1) \<Rightarrow> cleanup w True True ExitFailure
                | (Inr md, st1) \<Rightarrow> cleanup w True True ExitSuccess)))"
  unfolding run_def export_all_tables_case
  by (auto split: prod.splits option.splits sum.splits)

lemma run_status_table_outcome:
  "fst (run cfg (w\<lparr>table_outcome := ow\<rparr>)) = fst (run cfg w)"
  unfolding run_status extract_metadata_table_outcome
  by (simp add: initialize_duckdb_def connect_to_source_def cleanup_def
      cong: prod.case_cong sum.case_cong option.case_cong)

section \<open>Properties of the engine dispatch\<close>

text \<open>
  C8. For an engine name that is none of \<open>sqlserver\<close>, \<open>postgresql\<close> and \<open>oracle\<close>, the
  source connection and the scan function both end in the \<open>ValueError\<close> that names the
  unsupported engine: no extractor is connected and no scan text is produced. In
  consequence the export of a table raises that error without handing any statement to
  the engine, and the run exits with a failure status.
\<close>

theorem unsupported_engine_rejected:
  "db_type cfg \<notin> {''sqlserver'', ''postgresql'', ''oracle''} \<Longrightarrow>
   connect_to_source cfg w = Inl (ValueError (''Unsupported database type: '' @ db_type cfg))
   \<and> scan_function cfg t sort_order = Inl (ValueError (''Scanner not available for '' @ db_type cfg))
   \<and> fst (export_table_data cfg oc t st)
       = Some (ValueError (''Scanner not available for '' @ db_type cfg))
   \<and> transfers (snd (export_table_data cfg oc t st)) = transfers st
   \<and> fst (run cfg w) = ExitFailure"
proof -
  assume unsupported: "db_type cfg \<notin> {''sqlserver'', ''postgresql'', ''oracle''}"
  then have conn: "connect_to_source cfg w
      = Inl (ValueError (''Unsupported database type: '' @ db_type cfg))"
    by (simp add: connect_to_source_def choose_extractor_def)
  from unsupported have scan: "\<And>so. scan_function cfg t so
      = Inl (ValueError (''Scanner not available for '' @ db_type cfg))"
    by (simp add: scan_function_def)
  have res: "fst (export_table_data cfg oc t st)
       = Some (ValueError (''Scanner not available for '' @ db_type cfg))"
    by (simp add: export_table_data_result export_error_def table_export_query_def scan)
  have tr: "transfers (snd (export_table_data cfg oc t st)) = transfers st"
    by (simp add: export_table_data_transfers table_export_query_def scan)
  have exit: "fst (run cfg w) = ExitFailure"
    by (simp add: run_status conn cleanup_def split: prod.splits option.splits)
  from conn scan res tr exit show ?thesis by blast
qed

theorem unsupported_engine_rejected_witness:
  "db_type cfg_mysql \<notin> {''sqlserver'', ''postgresql'', ''oracle''}
   \<and> connect_to_source cfg_mysql calm_world = Inl (ValueError ''Unsupported database type: mysql'')
   \<and> scan_function cfg_mysql orders_table (get_table_sort_order orders_table)
       = Inl (ValueError ''Scanner not available for mysql'')
   \<and> fst (export_table_data cfg_mysql ok_outcome orders_table initial_state)
       = Some (ValueError ''Scanner not available for mysql'')
   \<and> fst (run cfg_mysql calm_world) = ExitFailure"
  using unsupported_engine_rejected [where cfg = cfg_mysql and w = calm_world and t = orders_table
      and sort_order = "get_table_sort_order orders_table" and oc = ok_outcome
      and st = initial_state]
  by (simp add: cfg_mysql_def cfg_pg_def)

section \<open>Tolerance of ledger failures\<close>

text \<open>
  C10. An error of the ledger statements never changes what the export of a table does:
  replacing the outcomes of the ledger \<open>INSERT\<close> and \<open>UPDATE\<close> by any others leaves the
  result of \<open>export_table_data\<close> (return, or the exception raised) unchanged; the \<open>COPY\<close> of
  the table is handed to the engine whatever the ledger does; and when the \<open>INSERT\<close> fails
  the ledger is left as it was, without an entry for the table.
\<close>

theorem ledger_failure_tolerated:
  "fst (export_table_data cfg (oc\<lparr>start_error := se, end_error := ee\<rparr>) t st)
     = fst (export_table_data cfg oc t st)
   \<and> transfers (snd (export_table_data cfg oc t st))
     = transfers st @ (case table_export_query cfg t of Inl e \<Rightarrow> [] | Inr q \<Rightarrow> [q])
   \<and> (start_error oc \<noteq> None \<longrightarrow> export_logs (snd (export_table_data cfg oc t st)) = export_logs st)"
proof -
  have "start_error oc \<noteq> None \<longrightarrow> export_logs (snd (export_table_data cfg oc t st)) = export_logs st"
    by (auto simp: export_table_data_def export_failed_def Let_def log_export_start_def
        log_export_end_def split: option.splits sum.splits prod.splits)
  then show ?thesis
    by (simp add: export_table_data_result export_table_data_transfers export_error_def
        cong: sum.case_cong)
qed

theorem ledger_failure_tolerated_witness:
  "start_error (table_outcome ledger_down_world 0) \<noteq> None
   \<and> fst (export_table_data cfg_pg
           ((table_outcome ledger_down_world 0)\<lparr>start_error := None, end_error := None\<rparr>)
           orders_table initial_state)
       = fst (export_table_data cfg_pg (table_outcome ledger_down_world 0) orders_table initial_state)
   \<and> length (transfers (snd (export_table_data cfg_pg (table_outcome ledger_down_world 0)
           orders_table initial_state))) = 1
   \<and> export_logs (snd (export_table_data cfg_pg (table_outcome ledger_down_world 0)
           orders_table initial_state)) = []"
  using ledger_failure_tolerated [where cfg = cfg_pg and oc = "table_outcome ledger_down_world 0"
      and se = None and ee = None and t = orders_table and st = initial_state]
  by (simp add: ledger_down_world_def initial_state_def table_export_query_def
      scan_function_def cfg_pg_def)

section \<open>Properties of the ledger over a whole loop\<close>





section \<open>Isolation of table failures\<close>

lemma length_concat_singletons:
  "(\<And>t. length (f t) = 1) \<Longrightarrow> length (concat (map f ts)) = length ts"
  by (induction ts) simp_all

text \<open>
  C1, as stated: whenever the export of a table raises, a \<open>failed\<close> entry is recorded for
  it. When the ledger \<open>INSERT\<close> of that table fails as well, there is no identifier to
  update (\<open>if log_id\<close>), and the ledger stays empty although the export raised.
\<close>

theorem failed_export_unrecorded:
  "fst (export_table_data cfg_pg (table_outcome ledger_down_world 0) orders_table initial_state)
     = Some (EngineError ''boom'')
   \<and> export_logs (snd (export_all_tables cfg_pg ledger_down_world one_table initial_state)) = []"
  by (simp add: export_table_data_result export_error_def table_export_query_def scan_function_def
      cfg_pg_def ledger_down_world_def export_all_tables_ledger fresh_ids_def initial_state_def
      one_table_def three_tables_def ledger_rows_def)

text \<open>
  C1, amended. Whatever the ledger does, the loop returns without an exception, the
  \<open>COPY\<close> statements of all tables are handed to the engine in discovery order (one per
  table for a supported engine), the exit status of the run does not depend on the
  outcomes of the table exports, and it is success whenever initialisation, connection,
  metadata extraction and the closing of the connections succeed. If the export of the
  table at position \<open>k\<close> raises \<open>e\<close> and the two ledger statements of that table
  succeed, the ledger holds the entry of that table with status \<open>failed\<close> and the message
  of \<open>e\<close>; and every table whose \<open>INSERT\<close> succeeded has its row, the later ones
  included.
\<close>

theorem table_failure_isolated:
  "fst (export_all_tables cfg w md st) = None
   \<and> transfers (snd (export_all_tables cfg w md st)) =
       transfers st @
         concat (map (\<lambda>t. case table_export_query cfg t of Inl e \<Rightarrow> [] | Inr q \<Rightarrow> [q])
                   (md_tables md))
   \<and> (db_type cfg \<in> {''sqlserver'', ''postgresql'', ''oracle''} \<longrightarrow>
         length (transfers (snd (export_all_tables cfg w md st))) =
           length (transfers st) + length (md_tables md))
   \<and> fst (run cfg (w\<lparr>table_outcome := ow\<rparr>)) = fst (run cfg w)
   \<and> (fst (initialize_duckdb w) = None \<and> connect_to_source cfg w = Inr x
        \<and> fst (extract_metadata cfg w initial_state) = Inr md'
        \<and> extractor_close_error w = None \<and> duckdb_close_error w = None \<longrightarrow>
         fst (run cfg w) = ExitSuccess)
   \<and> (fresh_ids st \<and> k < length (md_tables md)
        \<and> fst (export_table_data cfg (table_outcome w k) (md_tables md ! k) s) = Some e
        \<and> start_error (table_outcome w k) = None \<and> end_error (table_outcome w k) = None \<longrightarrow>
         \<lparr>e_id = uuid_counter st + k, e_schema = schema (md_tables md ! k),
          e_table_name = name (md_tables md ! k), e_full_name = full_name (md_tables md ! k),
          e_s3_path = table_s3_path (s3_bucket_path cfg) (schema (md_tables md ! k))
                        (name (md_tables md ! k)),
          e_status = ''failed'', e_message = str_of_error e\<rparr>
          \<in> set (export_logs (snd (export_all_tables cfg w md st))))
   \<and> (fresh_ids st \<longrightarrow>
         (\<forall>j<length (md_tables md). start_error (table_outcome w j) = None \<longrightarrow>
            final_entry cfg (table_outcome w j) (uuid_counter st + j) (md_tables md ! j)
              \<in> set (export_logs (snd (export_all_tables cfg w md st)))))"
proof -
  let ?L = "export_logs (snd (export_all_tables cfg w md st))"
  have rec: "fresh_ids st \<longrightarrow>
         (\<forall>j<length (md_tables md). start_error (table_outcome w j) = None \<longrightarrow>
            final_entry cfg (table_outcome w j) (uuid_counter st + j) (md_tables md ! j) \<in> set ?L)"
  proof
    assume "fresh_ids st"
    then have L: "?L = export_logs st
        @ loop_rows cfg (table_outcome w) 0 (uuid_counter st) (md_tables md)"
      by (rule export_all_tables_ledger)
    show "\<forall>j<length (md_tables md). start_error (table_outcome w j) = None \<longrightarrow>
            final_entry cfg (table_outcome w j) (uuid_counter st + j) (md_tables md ! j) \<in> set ?L"
      unfolding L
      using loop_rows_member [of _ cfg "table_outcome w" 0 "uuid_counter st" "md_tables md"]
      by auto
  qed
  have failed: "fresh_ids st \<and> k < length (md_tables md)
        \<and> fst (export_table_data cfg (table_outcome w k) (md_tables md ! k) s) = Some e
        \<and> start_error (table_outcome w k) = None \<and> end_error (table_outcome w k) = None \<longrightarrow>
         \<lparr>e_id = uuid_counter st + k, e_schema = schema (md_tables md ! k),
          e_table_name = name (md_tables md ! k), e_full_name = full_name (md_tables md ! k),
          e_s3_path = table_s3_path (s3_bucket_path cfg) (schema (md_tables md ! k))
                        (name (md_tables md ! k)),
          e_status = ''failed'', e_message = str_of_error e\<rparr> \<in> set ?L"
  proof
    assume h: "fresh_ids st \<and> k < length (md_tables md)
        \<and> fst (export_table_data cfg (table_outcome w k) (md_tables md ! k) s) = Some e
        \<and> start_error (table_outcome w k) = None \<and> end_error (table_outcome w k) = None"
    then have "export_error cfg (table_outcome w k) (md_tables md ! k) = Some e"
      by (simp add: export_table_data_result)
    with h have "final_entry cfg (table_outcome w k) (uuid_counter st + k) (md_tables md ! k) =
      \<lparr>e_id = uuid_counter st + k, e_schema = schema (md_tables md ! k),
         e_table_name = name (md_tables md ! k), e_full_name = full_name (md_tables md ! k),
         e_s3_path = table_s3_path (s3_bucket_path cfg) (schema (md_tables md ! k))
                       (name (md_tables md ! k)),
         e_status = ''failed'', e_message = str_of_error e\<rparr>"
      by (simp add: final_entry_def new_entry_def)
    with rec h show "\<lparr>e_id = uuid_counter st + k, e_schema = schema (md_tables md ! k),
          e_table_name = name (md_tables md ! k), e_full_name = full_name (md_tables md ! k),
          e_s3_path = table_s3_path (s3_bucket_path cfg) (schema (md_tables md ! k))
                        (name (md_tables md ! k)),
          e_status = ''failed'', e_message = str_of_error e\<rparr> \<in> set ?L"
      by metis
  qed
  have tr: "transfers (snd (export_all_tables cfg w md st)) =
         transfers st @
           concat (map (\<lambda>t. case table_export_query cfg t of Inl e \<Rightarrow> [] | Inr q \<Rightarrow> [q])
                     (md_tables md))"
    by (rule export_all_tables_transfers)
  have len: "db_type cfg \<in> {''sqlserver'', ''postgresql'', ''oracle''} \<longrightarrow>
           length (transfers (snd (export_all_tables cfg w md st))) =
             length (transfers st) + length (md_tables md)"
  proof
    assume sup: "db_type cfg \<in> {''sqlserver'', ''postgresql'', ''oracle''}"
    have "\<And>t. length (case table_export_query cfg t of Inl e \<Rightarrow> [] | Inr q \<Rightarrow> [q]) = 1"
      using sup by (auto simp: table_export_query_def scan_function_def)
    then have "length (concat (map (\<lambda>t. case table_export_query cfg t of Inl e \<Rightarrow> [] | Inr q \<Rightarrow> [q])
                     (md_tables md))) = length (md_tables md)"
      by (rule length_concat_singletons)
    then show "length (transfers (snd (export_all_tables cfg w md st))) =
             length (transfers st) + length (md_tables md)"
      by (simp add: tr)
  qed
  have ok: "fst (initialize_duckdb w) = None \<and> connect_to_source cfg w = Inr x
          \<and> fst (extract_metadata cfg w initial_state) = Inr md'
          \<and> extractor_close_error w = None \<and> duckdb_close_error w = None \<longrightarrow>
           fst (run cfg w) = ExitSuccess"
    by (auto simp: run_status initialize_duckdb_def cleanup_def split: option.splits prod.splits)
  show ?thesis
    using export_all_tables_returns [of cfg w md st] tr len
      run_status_table_outcome [where cfg = cfg and w = w and ow = ow] ok failed rec
    by blast
qed


theorem table_failure_isolated_witness:
  "fresh_ids initial_state
   \<and> 1 < length (md_tables three_tables)
   \<and> fst (export_table_data cfg_pg (table_outcome second_fails_world 1)
           (md_tables three_tables ! 1) initial_state) = Some (EngineError ''boom'')
   \<and> start_error (table_outcome second_fails_world 1) = None
   \<and> end_error (table_outcome second_fails_world 1) = None
   \<and> db_type cfg_pg \<in> {''sqlserver'', ''postgresql'', ''oracle''}
   \<and> fst (initialize_duckdb second_fails_world) = None
   \<and> connect_to_source cfg_pg second_fails_world = Inr PostgreSQLMetadataExtractor
   \<and> fst (extract_metadata cfg_pg second_fails_world initial_state) = Inr three_tables
   \<and> extractor_close_error second_fails_world = None
   \<and> duckdb_close_error second_fails_world = None
   \<and> fst (export_all_tables cfg_pg second_fails_world three_tables initial_state) = None
   \<and> \<lparr>e_id = 1, e_schema = ''sales'', e_table_name = ''legacy'', e_full_name = ''sales.legacy'',
       e_s3_path = ''s3://bucket/sales/legacy/legacy.parquet'', e_status = ''failed'',
       e_message = ''boom''\<rparr>
       \<in> set (export_logs (snd (export_all_tables cfg_pg second_fails_world three_tables
                 initial_state)))
   \<and> length (transfers (snd (export_all_tables cfg_pg second_fails_world three_tables
         initial_state))) = 3
   \<and> fst (run cfg_pg second_fails_world) = ExitSuccess
   \<and> fst (run cfg_pg calm_world) = ExitSuccess
   \<and> start_error (table_outcome ledger_down_world 0) = Some ''no ledger''
   \<and> fst (export_all_tables cfg_pg ledger_down_world one_table initial_state) = None
   \<and> length (transfers (snd (export_all_tables cfg_pg ledger_down_world one_table
         initial_state))) = 1
   \<and> fst (run cfg_pg ledger_down_world) = ExitSuccess"
proof -
  have h1: "fresh_ids initial_state"
    by (simp add: fresh_ids_def initial_state_def)
  have h2: "1 < length (md_tables three_tables)"
    by (simp add: three_tables_def)
  have h3: "fst (export_table_data cfg_pg (table_outcome second_fails_world 1)
           (md_tables three_tables ! 1) initial_state) = Some (EngineError ''boom'')"
    by (simp add: export_table_data_result export_error_def table_export_query_def
        scan_function_def cfg_pg_def second_fails_world_def ok_outcome_def)
  have h4: "start_error (table_outcome second_fails_world 1) = None"
    and h5: "end_error (table_outcome second_fails_world 1) = None"
    by (simp_all add: second_fails_world_def ok_outcome_def)
  have sup: "db_type cfg_pg \<in> {''sqlserver'', ''postgresql'', ''oracle''}"
    by (simp add: cfg_pg_def)
  have w: "second_fails_world\<lparr>table_outcome := table_outcome calm_world\<rparr> = calm_world"
    by (simp add: second_fails_world_def)
  have ok: "fst (initialize_duckdb second_fails_world) = None"
    "connect_to_source cfg_pg second_fails_world = Inr PostgreSQLMetadataExtractor"
    "fst (extract_metadata cfg_pg second_fails_world initial_state) = Inr three_tables"
    "extractor_close_error second_fails_world = None"
    "duckdb_close_error second_fails_world = None"
    by (simp_all add: initialize_duckdb_def connect_to_source_def choose_extractor_def
        extract_metadata_def metadata_artifacts_def save_to_s3_def second_fails_world_def
        calm_world_def three_tables_def cfg_pg_def)
  have ok2: "fst (initialize_duckdb ledger_down_world) = None"
    "connect_to_source cfg_pg ledger_down_world = Inr PostgreSQLMetadataExtractor"
    "fst (extract_metadata cfg_pg ledger_down_world initial_state) = Inr one_table"
    "extractor_close_error ledger_down_world = None"
    "duckdb_close_error ledger_down_world = None"
    by (simp_all add: initialize_duckdb_def connect_to_source_def choose_extractor_def
        extract_metadata_def metadata_artifacts_def save_to_s3_def ledger_down_world_def
        calm_world_def one_table_def three_tables_def cfg_pg_def)
  have d0: "start_error (table_outcome ledger_down_world 0) = Some ''no ledger''"
    by (simp add: ledger_down_world_def)
  note T = table_failure_isolated [where cfg = cfg_pg and w = second_fails_world
      and md = three_tables and st = initial_state and k = 1 and s = initial_state
      and e = "EngineError ''boom''" and ow = "table_outcome calm_world"
      and x = PostgreSQLMetadataExtractor and md' = three_tables]
  note D = table_failure_isolated [where cfg = cfg_pg and w = ledger_down_world
      and md = one_table and st = initial_state and k = 0 and s = initial_state
      and e = "EngineError ''boom''" and ow = "table_outcome calm_world"
      and x = PostgreSQLMetadataExtractor and md' = one_table]
  from T have c1: "fst (export_all_tables cfg_pg second_fails_world three_tables initial_state) = None"
    by blast
  from T h1 h2 h3 h4 h5 have raw: "\<lparr>e_id = uuid_counter initial_state + 1,
       e_schema = schema (md_tables three_tables ! 1),
       e_table_name = name (md_tables three_tables ! 1),
       e_full_name = full_name (md_tables three_tables ! 1),
       e_s3_path = table_s3_path (s3_bucket_path cfg_pg) (schema (md_tables three_tables ! 1))
                       (name (md_tables three_tables ! 1)),
       e_status = ''failed'', e_message = str_of_error (EngineError ''boom'')\<rparr>
       \<in> set (export_logs (snd (export_all_tables cfg_pg second_fails_world three_tables
                 initial_state)))"
    by blast
  have eq: "\<lparr>e_id = uuid_counter initial_state + 1,
       e_schema = schema (md_tables three_tables ! 1),
       e_table_name = name (md_tables three_tables ! 1),
       e_full_name = full_name (md_tables three_tables ! 1),
       e_s3_path = table_s3_path (s3_bucket_path cfg_pg) (schema (md_tables three_tables ! 1))
                       (name (md_tables three_tables ! 1)),
       e_status = ''failed'', e_message = str_of_error (EngineError ''boom'')\<rparr>
     = \<lparr>e_id = 1, e_schema = ''sales'', e_table_name = ''legacy'', e_full_name = ''sales.legacy'',
       e_s3_path = ''s3://bucket/sales/legacy/legacy.parquet'', e_status = ''failed'',
       e_message = ''boom''\<rparr>"
    by (simp add: initial_state_def three_tables_def legacy_table_def cfg_pg_def table_s3_path_def)
  have c2: "\<lparr>e_id = 1, e_schema = ''sales'', e_table_name = ''legacy'', e_full_name = ''sales.legacy'',
       e_s3_path = ''s3://bucket/sales/legacy/legacy.parquet'', e_status = ''failed'',
       e_message = ''boom''\<rparr>
       \<in> set (export_logs (snd (export_all_tables cfg_pg second_fails_world three_tables
                 initial_state)))"
    using raw unfolding eq .
  from T sup have "length (transfers (snd (export_all_tables cfg_pg second_fails_world three_tables
        initial_state))) = length (transfers initial_state) + length (md_tables three_tables)"
    by blast
  then have c3: "length (transfers (snd (export_all_tables cfg_pg second_fails_world three_tables
         initial_state))) = 3"
    by (simp add: initial_state_def three_tables_def)
  from T ok have c4: "fst (run cfg_pg second_fails_world) = ExitSuccess"
    by blast
  from T have "fst (run cfg_pg (second_fails_world\<lparr>table_outcome := table_outcome calm_world\<rparr>))
      = fst (run cfg_pg second_fails_world)"
    by blast
  with c4 have c5: "fst (run cfg_pg calm_world) = ExitSuccess"
    by (simp add: w)
  from D have d1: "fst (export_all_tables cfg_pg ledger_down_world one_table initial_state) = None"
    by blast
  from D sup have "length (transfers (snd (export_all_tables cfg_pg ledger_down_world one_table
        initial_state))) = length (transfers initial_state) + length (md_tables one_table)"
    by blast
  then have d2: "length (transfers (snd (export_all_tables cfg_pg ledger_down_world one_table
         initial_state))) = 1"
    by (simp add: initial_state_def one_table_def three_tables_def)
  from D ok2 have d3: "fst (run cfg_pg ledger_down_world) = ExitSuccess"
    by blast
  show ?thesis
    using h1 h2 h3 h4 h5 sup ok c1 c2 c3 c4 c5 d0 d1 d2 d3 by blast
qed

section \<open>The unguarded local fallback of blob writes\<close>

text \<open>
  What \<open>_save_to_s3\<close> does in each case: the remote write alone when it succeeds; when it
  fails and the local file system works, the same content under the path in which
  \<open>s3://\<close> is replaced by \<open>local_export/\<close>, after the parent directory was asked for; when
  the local \<open>open\<close> fails too, the error of \<open>open\<close> as the result of the function.
\<close>

lemma py_replace_scheme:
  "py_replace ''s3://'' ''local_export/'' (''s3://'' @ rest)
     = ''local_export/'' @ py_replace ''s3://'' ''local_export/'' rest"
  by simp

lemma save_to_s3_remote:
  "blob_error w p = None \<Longrightarrow>
   save_to_s3 w p c st = (None, st\<lparr>remote_blobs := remote_blobs st @ [(p, c)]\<rparr>)"
  by (simp add: save_to_s3_def)

lemma save_to_s3_local_fallback:
  assumes "blob_error w p = Some m"
    and "dirname (py_replace ''s3://'' ''local_export/'' p) \<noteq> []"
    and "makedirs_error w (dirname (py_replace ''s3://'' ''local_export/'' p)) = None"
    and "open_error w (py_replace ''s3://'' ''local_export/'' p) = None"
  shows "save_to_s3 w p c st =
     (None, st\<lparr>local_dirs := local_dirs st @ [dirname (py_replace ''s3://'' ''local_export/'' p)],
               local_files := local_files st @ [(py_replace ''s3://'' ''local_export/'' p, c)]\<rparr>)"
  using assms by (simp add: save_to_s3_def makedirs_def Let_def)

lemma save_to_s3_unguarded:
  assumes "blob_error w p = Some m"
    and "dirname (py_replace ''s3://'' ''local_export/'' p) \<noteq> []"
    and "makedirs_error w (dirname (py_replace ''s3://'' ''local_export/'' p)) = None"
    and "open_error w (py_replace ''s3://'' ''local_export/'' p) = Some m2"
  shows "fst (save_to_s3 w p c st) = Some (OSError m2)"
  using assms by (simp add: save_to_s3_def makedirs_def Let_def)

text \<open>
  C5. The claim promises that a failure of the local fallback does not abort the run. In
  \<open>_save_to_s3\<close> the fallback is not guarded: with the remote write and the local
  \<open>open\<close> both failing, the error leaves \<open>_save_to_s3\<close>, metadata extraction fails, the run
  exits with a failure status and no table is exported. With the local file system
  working the same remote failure is absorbed, and the ledger flush, whose fallback has a
  \<open>try\<close> of its own, swallows the same local failure.
\<close>

theorem fallback_failure_aborts_run:
  "save_to_s3 fallback_fails_world ''s3://bucket/metadata/tables/sales/orders.sql''
       ''CREATE TABLE orders'' initial_state
     = (Some (OSError ''Permission denied''),
        initial_state\<lparr>local_dirs := [''local_export/bucket/metadata/tables/sales'']\<rparr>)
   \<and> fst (run cfg_pg fallback_fails_world) = ExitFailure
   \<and> transfers (snd (run cfg_pg fallback_fails_world)) = []
   \<and> fst (run cfg_pg remote_down_world) = ExitSuccess
   \<and> fst (write_progress_to_s3 cfg_pg flush_fails_world initial_state) = None"
proof -
  have a: "save_to_s3 fallback_fails_world ''s3://bucket/metadata/tables/sales/orders.sql''
       ''CREATE TABLE orders'' initial_state
     = (Some (OSError ''Permission denied''),
        initial_state\<lparr>local_dirs := [''local_export/bucket/metadata/tables/sales'']\<rparr>)"
    by (simp add: save_to_s3_def Let_def makedirs_def dirname_def fallback_fails_world_def
        remote_down_world_def calm_world_def initial_state_def)
  have m: "extract_metadata cfg_pg fallback_fails_world initial_state
      = (Inl (OSError ''Permission denied''),
         initial_state\<lparr>local_dirs := [''local_export/bucket/metadata'']\<rparr>)"
    by (simp add: extract_metadata_def metadata_artifacts_def save_to_s3_def Let_def makedirs_def
        dirname_def fallback_fails_world_def remote_down_world_def calm_world_def cfg_pg_def
        three_tables_def initial_state_def)
  have i: "initialize_duckdb fallback_fails_world = (None, initial_state)"
    "connect_to_source cfg_pg fallback_fails_world = Inr PostgreSQLMetadataExtractor"
    by (simp_all add: initialize_duckdb_def connect_to_source_def choose_extractor_def
        fallback_fails_world_def remote_down_world_def calm_world_def cfg_pg_def)
  have b: "fst (run cfg_pg fallback_fails_world) = ExitFailure"
    by (simp add: run_def i m cleanup_def)
  have "snd (run cfg_pg fallback_fails_world)
      = initial_state\<lparr>local_dirs := [''local_export/bucket/metadata'']\<rparr>"
    by (simp add: run_def i m)
  then have c: "transfers (snd (run cfg_pg fallback_fails_world)) = []"
    by (simp add: initial_state_def)
  have d: "fst (run cfg_pg remote_down_world) = ExitSuccess"
    by (simp add: run_status initialize_duckdb_def connect_to_source_def choose_extractor_def
        extract_metadata_def metadata_artifacts_def save_to_s3_def Let_def makedirs_def dirname_def
        remote_down_world_def calm_world_def cfg_pg_def cleanup_def three_tables_def
        orders_table_def legacy_table_def empty_key_table_def)
  have e: "fst (write_progress_to_s3 cfg_pg flush_fails_world initial_state) = None"
    by (simp add: write_progress_to_s3_def Let_def makedirs_def dirname_def flush_fails_world_def
        calm_world_def cfg_pg_def)
  from a b c d e show ?thesis by blast
qed

section \<open>Escaping of interpolated strings\<close>

lemma sq_escape_simps:
  "sq_escape [] = []"
  "sq_escape (c # cs) = (if c = CHR 0x27 then CHR 0x27 # CHR 0x27 # sq_escape cs else c # sq_escape cs)"
  by (simp_all add: sq_escape_def sq_def)

lemma lex_inside_other:
  "c \<noteq> q \<Longrightarrow> ys \<noteq> [] \<Longrightarrow> lex_quoted q (Some acc) (c # ys) = lex_quoted q (Some (c # acc)) ys"
  by (cases ys) simp_all

lemma lex_escaped:
  "c \<noteq> CHR 0x27 \<Longrightarrow>
   lex_quoted (CHR 0x27) (Some acc) (sq_escape v @ CHR 0x27 # c # rest) =
     map_option ((#) (rev acc @ v)) (lex_quoted (CHR 0x27) None (c # rest))"
proof (induction v arbitrary: acc)
  case Nil
  then show ?case by (simp add: sq_escape_simps)
next
  case (Cons x xs)
  show ?case
  proof (cases "x = CHR 0x27")
    case True
    then show ?thesis using Cons by (simp add: sq_escape_simps)
  next
    case False
    then show ?thesis using Cons by (simp add: sq_escape_simps lex_inside_other)
  qed
qed

lemma lex_escaped_end:
  "lex_quoted (CHR 0x27) (Some acc) (sq_escape v @ [CHR 0x27]) = Some [rev acc @ v]"
proof (induction v arbitrary: acc)
  case Nil
  then show ?case by (simp add: sq_escape_simps)
next
  case (Cons x xs)
  show ?case
  proof (cases "x = CHR 0x27")
    case True
    then show ?thesis using Cons by (simp add: sq_escape_simps)
  next
    case False
    then show ?thesis using Cons by (simp add: sq_escape_simps lex_inside_other)
  qed
qed

lemma lex_blanks:
  "lex_quoted (CHR 0x27) None (sp n @ s) = lex_quoted (CHR 0x27) None s"
  by (induction n) (simp_all add: sp_def)

lemma lex_blanks_end:
  "lex_quoted (CHR 0x27) None (sp n) = Some []"
  using lex_blanks [of n "[]"] by simp

lemma sq_escape_plain: "CHR 0x27 \<notin> set u \<Longrightarrow> sq_escape u = u"
  by (induction u) (auto simp: sq_escape_simps)

lemma lex_plain:
  "CHR 0x27 \<notin> set u \<Longrightarrow> c \<noteq> CHR 0x27 \<Longrightarrow>
   lex_quoted (CHR 0x27) (Some acc) (u @ CHR 0x27 # c # rest) =
     map_option ((#) (rev acc @ u)) (lex_quoted (CHR 0x27) None (c # rest))"
  using lex_escaped [of c acc u rest] by (simp add: sq_escape_plain)

lemma read_inside_other:
  "c \<noteq> q \<Longrightarrow> ys \<noteq> [] \<Longrightarrow> read_quoted q acc (c # ys) = read_quoted q (c # acc) ys"
  by (cases ys) simp_all

lemma read_escaped:
  "c \<noteq> CHR 0x27 \<Longrightarrow>
   read_quoted (CHR 0x27) acc (sq_escape v @ CHR 0x27 # c # rest) = Some (rev acc @ v, c # rest)"
proof (induction v arbitrary: acc)
  case Nil
  then show ?case by (simp add: sq_escape_simps)
next
  case (Cons x xs)
  show ?case
  proof (cases "x = CHR 0x27")
    case True
    then show ?thesis using Cons by (simp add: sq_escape_simps)
  next
    case False
    then show ?thesis using Cons by (simp add: sq_escape_simps read_inside_other)
  qed
qed

lemma next_blanks:
  "next_quoted (CHR 0x27) (sp n @ s) = next_quoted (CHR 0x27) s"
  by (induction n) (simp_all add: sp_def)

lemma copy_literals_odbc:
  "db_type cfg = ''sqlserver'' \<or> db_type cfg = ''oracle'' \<Longrightarrow>
   copy_literals 2 cfg t =
     Inr (Some [odbc_conn cfg, table_query cfg t (get_table_sort_order t)])"
  by (auto simp: copy_literals_def first_literals_def table_export_query_def scan_function_def
      export_query_def sq_def nl_def next_blanks read_escaped eval_nat_numeral)

lemma copy_literals_pg:
  "db_type cfg = ''postgresql'' \<Longrightarrow>
   copy_literals 3 cfg t = Inr (Some [pg_conn cfg, schema t, name t])"
  by (simp add: copy_literals_def first_literals_def table_export_query_def scan_function_def
      export_query_def sq_def nl_def next_blanks read_escaped eval_nat_numeral)

lemma blob_literal:
  "first_literals 1 (save_query s3_path content) = Some [content]"
  by (simp add: first_literals_def save_query_def sq_def nl_def next_blanks read_escaped)

text \<open>
  The text returned by the sort-order selector reads back as the list of the selected
  columns, in order, as long as no column name contains a double quote.
\<close>

lemma lex_inside_plain:
  "q \<notin> set u \<Longrightarrow> c \<noteq> q \<Longrightarrow>
   lex_quoted q (Some acc) (u @ q # c # rest) =
     map_option ((#) (rev acc @ u)) (lex_quoted q None (c # rest))"
proof (induction u arbitrary: acc)
  case Nil
  then show ?case by simp
next
  case (Cons x xs)
  then have "x \<noteq> q" and "q \<notin> set xs" by auto
  with Cons show ?case by (simp add: lex_inside_other)
qed

lemma lex_inside_plain_end:
  "q \<notin> set u \<Longrightarrow> lex_quoted q (Some acc) (u @ [q]) = Some [rev acc @ u]"
proof (induction u arbitrary: acc)
  case Nil
  then show ?case by simp
next
  case (Cons x xs)
  then have "x \<noteq> q" and "q \<notin> set xs" by auto
  with Cons show ?case by (simp add: lex_inside_other)
qed

lemma sort_clause_reads_back:
  "\<forall>c \<in> set cols. CHR 0x22 \<notin> set c \<Longrightarrow>
   lex_quoted (CHR 0x22) None (sort_clause cols) = Some cols"
proof (induction cols)
  case Nil
  then show ?case by (simp add: sort_clause_def)
next
  case (Cons c cs)
  show ?case
  proof (cases cs)
    case Nil
    with Cons.prems show ?thesis
      by (simp add: sort_clause_def quoted_def lex_inside_plain_end)
  next
    case (Cons d ds)
    have "sort_clause (c # cs) = CHR 0x22 # c @ CHR 0x22 # CHR '','' # CHR '' '' # sort_clause cs"
      using Cons by (simp add: sort_clause_def quoted_def)
    moreover have "lex_quoted (CHR 0x22) None (sort_clause cs) = Some cs"
      using Cons.IH Cons.prems by simp
    ultimately show ?thesis
      using Cons.prems by (simp add: lex_inside_plain)
  qed
qed

text \<open>
  C6, as stated: quoted identifiers in the generated \<open>ORDER BY\<close> are escaped for the
  engine's quoting convention. The selector wraps a column name in double quotes and
  escapes nothing: for the key column \<open>a"b\<close> it returns \<open>"a"b"\<close>, not \<open>"a""b"\<close>, and the
  text no longer reads as one quoted identifier.
\<close>

theorem identifier_quote_not_escaped:
  "get_table_sort_order odd_table = [CHR 0x22, CHR ''a'', CHR 0x22, CHR ''b'', CHR 0x22]
   \<and> get_table_sort_order odd_table
       \<noteq> CHR 0x22 # py_replace [CHR 0x22] [CHR 0x22, CHR 0x22] [CHR ''a'', CHR 0x22, CHR ''b'']
           @ [CHR 0x22]
   \<and> lex_quoted (CHR 0x22) None (get_table_sort_order odd_table) = None
   \<and> lex_quoted (CHR 0x22) None
         (CHR 0x22 # py_replace [CHR 0x22] [CHR 0x22, CHR 0x22] [CHR ''a'', CHR 0x22, CHR ''b'']
            @ [CHR 0x22])
       = Some [[CHR ''a'', CHR 0x22, CHR ''b'']]"
  by (simp add: get_table_sort_order_def odd_table_def sort_clause_def quoted_def)

text \<open>
  C6, amended. The values the exporter passes through \<open>replace("'", "''")\<close> have their
  single quotes doubled, so that in the statement handed to the engine they read back as
  exactly the values interpolated: the first two literals of the export \<open>COPY\<close> are the
  ODBC connection string and the table query (SQL Server, Oracle), its first three the
  connection string, the schema and the table (PostgreSQL), for every table and every
  destination path; the literals of the ledger \<open>INSERT\<close> and \<open>UPDATE\<close> are the
  identifier, schema, table, full name, path, status, message and timestamps, where the
  identifier, the status and the timestamps are produced by the exporter and hold no
  quote; the first literal of the blob \<open>COPY\<close> is the content, for every path. The
  statement says nothing about the destination path literal of the two \<open>COPY\<close>
  statements, about what follows it, or about the secret.
\<close>

theorem single_quotes_doubled:
  "(db_type cfg = ''sqlserver'' \<or> db_type cfg = ''oracle'' \<longrightarrow>
      copy_literals 2 cfg t =
        Inr (Some [odbc_conn cfg, table_query cfg t (get_table_sort_order t)]))
   \<and> (db_type cfg = ''postgresql'' \<longrightarrow>
      copy_literals 3 cfg t = Inr (Some [pg_conn cfg, schema t, name t]))
   \<and> (CHR 0x27 \<notin> set log_id \<and> CHR 0x27 \<notin> set started_at \<longrightarrow>
      sql_literals (log_start_sql log_id started_at t s3_path) =
        Some [log_id, schema t, name t, full_name t, s3_path, ''in_progress'', [], started_at])
   \<and> (CHR 0x27 \<notin> set log_id \<and> CHR 0x27 \<notin> set status \<and> CHR 0x27 \<notin> set finished_at \<longrightarrow>
      sql_literals (log_end_sql log_id status message finished_at) =
        Some [status, message, finished_at, log_id])
   \<and> first_literals 1 (save_query blob_path content) = Some [content]"
proof -
  have scan_odbc: "db_type cfg = ''sqlserver'' \<or> db_type cfg = ''oracle'' \<longrightarrow>
      copy_literals 2 cfg t =
        Inr (Some [odbc_conn cfg, table_query cfg t (get_table_sort_order t)])"
    using copy_literals_odbc [of cfg t] by blast
  have scan_pg: "db_type cfg = ''postgresql'' \<longrightarrow>
      copy_literals 3 cfg t = Inr (Some [pg_conn cfg, schema t, name t])"
    using copy_literals_pg [of cfg t] by blast
  have start: "CHR 0x27 \<notin> set log_id \<and> CHR 0x27 \<notin> set started_at \<longrightarrow>
      sql_literals (log_start_sql log_id started_at t s3_path) =
        Some [log_id, schema t, name t, full_name t, s3_path, ''in_progress'', [], started_at]"
    by (simp add: log_start_sql_def sql_literals_def sq_def nl_def lex_blanks lex_blanks_end
        lex_escaped lex_plain)
  have fin: "CHR 0x27 \<notin> set log_id \<and> CHR 0x27 \<notin> set status \<and> CHR 0x27 \<notin> set finished_at \<longrightarrow>
      sql_literals (log_end_sql log_id status message finished_at) =
        Some [status, message, finished_at, log_id]"
    by (simp add: log_end_sql_def sql_literals_def sq_def nl_def lex_blanks lex_blanks_end
        lex_escaped lex_plain)
  from scan_odbc scan_pg start fin blob_literal [of blob_path content] show ?thesis by blast
qed

theorem single_quotes_doubled_witness:
  "db_type cfg_pg = ''postgresql''
   \<and> db_type cfg_mssql = ''sqlserver''
   \<and> CHR 0x27 \<notin> set ''0f8c2d1e-5b7a-4c3d-9e2f-1a6b8c0d4e7f''
   \<and> CHR 0x27 \<notin> set ''2024-01-01 00:00:00''
   \<and> CHR 0x27 \<notin> set ''success''
   \<and> CHR 0x27 \<in> set (table_s3_path (s3_bucket_path cfg_pg) (schema odd_table) (name odd_table))
   \<and> (s3_bucket_path cfg_pg @ ''/metadata/tables/'' @ schema odd_table @ ''/'' @ name odd_table
          @ ''.sql'', ddl odd_table) \<in> set (metadata_artifacts cfg_pg calm_world odd_metadata)
   \<and> copy_literals 3 cfg_pg odd_table
       = Inr (Some [pg_conn cfg_pg, schema odd_table, name odd_table])
   \<and> copy_literals 2 cfg_mssql odd_table
       = Inr (Some [odbc_conn cfg_mssql,
                    table_query cfg_mssql odd_table (get_table_sort_order odd_table)])
   \<and> sql_literals (log_start_sql ''0f8c2d1e-5b7a-4c3d-9e2f-1a6b8c0d4e7f'' ''2024-01-01 00:00:00''
         odd_table (table_s3_path (s3_bucket_path cfg_pg) (schema odd_table) (name odd_table)))
       = Some [''0f8c2d1e-5b7a-4c3d-9e2f-1a6b8c0d4e7f'', schema odd_table, name odd_table,
               full_name odd_table,
               table_s3_path (s3_bucket_path cfg_pg) (schema odd_table) (name odd_table),
               ''in_progress'', [], ''2024-01-01 00:00:00'']
   \<and> sql_literals (log_end_sql ''0f8c2d1e-5b7a-4c3d-9e2f-1a6b8c0d4e7f'' ''success''
         (''Exported to ''
            @ table_s3_path (s3_bucket_path cfg_pg) (schema odd_table) (name odd_table))
         ''2024-01-01 00:00:00'')
       = Some [''success'',
               ''Exported to ''
                 @ table_s3_path (s3_bucket_path cfg_pg) (schema odd_table) (name odd_table),
               ''2024-01-01 00:00:00'', ''0f8c2d1e-5b7a-4c3d-9e2f-1a6b8c0d4e7f'']
   \<and> first_literals 1
         (save_query (s3_bucket_path cfg_pg @ ''/metadata/tables/'' @ schema odd_table @ ''/''
                        @ name odd_table @ ''.sql'') (ddl odd_table))
       = Some [ddl odd_table]"
proof -
  have h: "db_type cfg_pg = ''postgresql''"
    "db_type cfg_mssql = ''sqlserver''"
    "CHR 0x27 \<notin> set ''0f8c2d1e-5b7a-4c3d-9e2f-1a6b8c0d4e7f''"
    "CHR 0x27 \<notin> set ''2024-01-01 00:00:00''"
    "CHR 0x27 \<notin> set ''success''"
    "CHR 0x27 \<in> set (table_s3_path (s3_bucket_path cfg_pg) (schema odd_table) (name odd_table))"
    by (simp_all add: cfg_pg_def cfg_mssql_def odd_table_def table_s3_path_def)
  have art: "(s3_bucket_path cfg_pg @ ''/metadata/tables/'' @ schema odd_table @ ''/''
          @ name odd_table @ ''.sql'', ddl odd_table)
        \<in> set (metadata_artifacts cfg_pg calm_world odd_metadata)"
    by (simp add: metadata_artifacts_def odd_metadata_def three_tables_def)
  note pg = single_quotes_doubled [where cfg = cfg_pg and t = odd_table
      and log_id = "''0f8c2d1e-5b7a-4c3d-9e2f-1a6b8c0d4e7f''"
      and started_at = "''2024-01-01 00:00:00''" and status = "''success''"
      and s3_path = "table_s3_path (s3_bucket_path cfg_pg) (schema odd_table) (name odd_table)"
      and message = "''Exported to ''
            @ table_s3_path (s3_bucket_path cfg_pg) (schema odd_table) (name odd_table)"
      and finished_at = "''2024-01-01 00:00:00''"
      and blob_path = "s3_bucket_path cfg_pg @ ''/metadata/tables/'' @ schema odd_table @ ''/''
                        @ name odd_table @ ''.sql''"
      and content = "ddl odd_table"]
  note ms = single_quotes_doubled [where cfg = cfg_mssql and t = odd_table
      and log_id = "''0f8c2d1e-5b7a-4c3d-9e2f-1a6b8c0d4e7f''"
      and started_at = "''2024-01-01 00:00:00''" and status = "''success''"
      and s3_path = "table_s3_path (s3_bucket_path cfg_pg) (schema odd_table) (name odd_table)"
      and message = "''Exported to ''
            @ table_s3_path (s3_bucket_path cfg_pg) (schema odd_table) (name odd_table)"
      and finished_at = "''2024-01-01 00:00:00''"
      and blob_path = "s3_bucket_path cfg_pg @ ''/metadata/tables/'' @ schema odd_table @ ''/''
                        @ name odd_table @ ''.sql''"
      and content = "ddl odd_table"]
  from pg ms h art show ?thesis by blast
qed

text \<open>
  The values interpolated as they are, on the same table: in the export \<open>COPY\<close> the
  destination path of \<open>o'brien\<close> is read as two literals; the \<open>COPY\<close> of its DDL, and
  the secret for the region \<open>eu'west\<close>, end inside a literal.
\<close>

lemma path_literal_verbatim:
  "(case table_export_query cfg_pg odd_table of Inl e \<Rightarrow> None | Inr q \<Rightarrow> sql_literals q)
     = Some [pg_conn cfg_pg, ''sales'', name odd_table, ''s3://bucket/sales/o'', ''brien.parquet'',
             ''parquet'', ''ZSTD'']
   \<and> sql_literals (save_query (''s3://bucket/metadata/tables/sales/'' @ name odd_table @ ''.sql'')
          (ddl odd_table)) = None
   \<and> map_option sql_literals (create_secret_sql profile_settings) = Some None"
proof -
  have a: "(case table_export_query cfg_pg odd_table of Inl e \<Rightarrow> None | Inr q \<Rightarrow> sql_literals q)
     = Some [pg_conn cfg_pg, ''sales'', name odd_table, ''s3://bucket/sales/o'', ''brien.parquet'',
             ''parquet'', ''ZSTD'']"
    by (simp add: table_export_query_def scan_function_def export_query_def sql_literals_def
        get_table_sort_order_def sort_clause_def quoted_def table_s3_path_def
        odd_table_def cfg_pg_def sq_def nl_def lex_blanks lex_blanks_end
        lex_escaped)
  have b: "sql_literals (save_query (''s3://bucket/metadata/tables/sales/'' @ name odd_table @ ''.sql'')
          (ddl odd_table)) = None"
    by (simp add: save_query_def sql_literals_def odd_table_def sq_def nl_def
        sp_def eval_nat_numeral sq_escape_simps)
  have c: "map_option sql_literals (create_secret_sql profile_settings) = Some None"
    by (simp add: create_secret_sql_def profile_settings_def sql_literals_def sq_def nl_def
        sp_def eval_nat_numeral)
  from a b c show ?thesis by blast
qed

end
